theory Spec2Isabelle
  imports Main "HOL-Library.Sublist"
begin

section \<open>Errors and results\<close>

text \<open>
  Every Python exception that the modelled code can raise is a value. A computation that
  may raise returns \<open>error + 'a\<close>, with \<open>Inl\<close> the exception.
\<close>

datatype error =
    AssertionError
  | ValueError
  | TypeError
  | AttributeError
  | IndexError
  | ZeroDivisionError
  | RuntimeError
  | OSError

definition and_then :: "error + 'a \<Rightarrow> ('a \<Rightarrow> error + 'b) \<Rightarrow> error + 'b" where
  "and_then m f = (case m of Inl e \<Rightarrow> Inl e | Inr v \<Rightarrow> f v)"

section \<open>Tensors and the primitives of the tensor library\<close>

text \<open>
  A tensor is its shape together with its contents. The contents are kept abstract (a type
  variable): the numeric kernels of the tensor library are one parameter \<open>K\<close>, which gives
  the contents of the result of the primitive named by a string and a list of integer
  attributes, applied to the given tensors. Learned weights belong to the layer that is
  named by its key in the state dictionary. Shapes, and with them every shape error of the
  library, are computed in full. The drop rates are those of the source's defaults (all
  zero), so that dropout and stochastic depth are the identity in training and in
  inference. The mode of the model (\<open>self.training\<close>, set for all layers at once by
  \<open>model.train()\<close> and \<open>model.eval()\<close>, true after construction) is the argument
  \<open>training\<close> of the layers whose checks depend on it.
\<close>

record 'a tensor =
  shape :: "nat list"
  data :: 'a

type_synonym 'a kernel = "string \<Rightarrow> nat list \<Rightarrow> 'a tensor list \<Rightarrow> 'a"

definition mk :: "'a kernel \<Rightarrow> string \<Rightarrow> nat list \<Rightarrow> 'a tensor list \<Rightarrow> nat list \<Rightarrow> 'a tensor" where
  "mk K nm attrs ins sh = \<lparr>shape = sh, data = K nm attrs ins\<rparr>"

definition numel :: "'a tensor \<Rightarrow> nat" where
  "numel x = prod_list (shape x)"

text \<open>
  \<open>x.reshape(...)\<close>: a target dimension \<open>None\<close> is the \<open>-1\<close> of the source. With one
  \<open>-1\<close> the product of the other dimensions must be positive and divide the number of
  elements (an empty tensor makes the inferred dimension ambiguous, which is an error);
  without it the products must agree.
\<close>

definition known_size :: "nat option list \<Rightarrow> nat" where
  "known_size target = prod_list (map (\<lambda>d. case d of None \<Rightarrow> 1 | Some n \<Rightarrow> n) target)"

definition infer_size :: "nat option list \<Rightarrow> nat \<Rightarrow> error + nat list" where
  "infer_size target n =
     (if length (filter (\<lambda>d. d = None) target) > 1 then Inl RuntimeError
      else if length (filter (\<lambda>d. d = None) target) = 1 then
        (if 0 < known_size target \<and> n mod known_size target = 0
         then Inr (map (\<lambda>d. case d of None \<Rightarrow> n div known_size target | Some m \<Rightarrow> m) target)
         else Inl RuntimeError)
      else if known_size target = n
        then Inr (map (\<lambda>d. case d of None \<Rightarrow> 0 | Some m \<Rightarrow> m) target)
        else Inl RuntimeError)"

definition reshape :: "'a kernel \<Rightarrow> nat option list \<Rightarrow> 'a tensor \<Rightarrow> error + 'a tensor" where
  "reshape K target x =
     and_then (infer_size target (numel x)) (\<lambda>sh. Inr (mk K ''reshape'' sh [x] sh))"

text \<open>A dimension index may be negative and then counts from the end.\<close>

definition norm_dim :: "int \<Rightarrow> nat \<Rightarrow> error + nat" where
  "norm_dim d r =
     (if 0 \<le> d \<and> d < int r then Inr (nat d)
      else if d < 0 \<and> - int r \<le> d then Inr (nat (int r + d))
      else Inl IndexError)"

definition transpose :: "'a kernel \<Rightarrow> int \<Rightarrow> int \<Rightarrow> 'a tensor \<Rightarrow> error + 'a tensor" where
  "transpose K d0 d1 x =
     and_then (norm_dim d0 (length (shape x))) (\<lambda>i.
     and_then (norm_dim d1 (length (shape x))) (\<lambda>j.
       Inr (mk K ''transpose'' [i, j] [x] ((shape x)[i := shape x ! j, j := shape x ! i]))))"

definition permute :: "'a kernel \<Rightarrow> nat list \<Rightarrow> 'a tensor \<Rightarrow> error + 'a tensor" where
  "permute K dims x =
     (if length dims = length (shape x) \<and> distinct dims \<and> list_all (\<lambda>d. d < length (shape x)) dims
      then Inr (mk K ''permute'' dims [x] (map (\<lambda>d. shape x ! d) dims))
      else Inl RuntimeError)"

text \<open>\<open>x.flatten(start)\<close> merges the dimensions from \<open>start\<close> to the last one.\<close>

definition flatten :: "'a kernel \<Rightarrow> nat \<Rightarrow> 'a tensor \<Rightarrow> error + 'a tensor" where
  "flatten K start x =
     (if start < length (shape x)
      then Inr (mk K ''flatten'' [start] [x] (take start (shape x) @ [prod_list (drop start (shape x))]))
      else Inl IndexError)"

text \<open>Broadcasting aligns two shapes at their last dimensions.\<close>

fun broadcast_rev :: "nat list \<Rightarrow> nat list \<Rightarrow> error + nat list" where
  "broadcast_rev [] bs = Inr bs"
| "broadcast_rev as [] = Inr as"
| "broadcast_rev (a # as) (b # bs) =
     (if a = b \<or> b = 1 then and_then (broadcast_rev as bs) (\<lambda>r. Inr (a # r))
      else if a = 1 then and_then (broadcast_rev as bs) (\<lambda>r. Inr (b # r))
      else Inl RuntimeError)"

definition broadcast :: "nat list \<Rightarrow> nat list \<Rightarrow> error + nat list" where
  "broadcast as bs = and_then (broadcast_rev (rev as) (rev bs)) (\<lambda>r. Inr (rev r))"

definition add :: "'a kernel \<Rightarrow> 'a tensor \<Rightarrow> 'a tensor \<Rightarrow> error + 'a tensor" where
  "add K x y = and_then (broadcast (shape x) (shape y)) (\<lambda>sh. Inr (mk K ''add'' [] [x, y] sh))"

text \<open>
  \<open>x @ y\<close>: a one-dimensional operand is promoted to a matrix and the added dimension is
  removed from the result; the leading (batch) dimensions broadcast.
\<close>

definition matmul :: "'a kernel \<Rightarrow> 'a tensor \<Rightarrow> 'a tensor \<Rightarrow> error + 'a tensor" where
  "matmul K x y =
     (if shape x = [] \<or> shape y = [] then Inl RuntimeError
      else
        let a = (if length (shape x) = 1 then 1 # shape x else shape x);
            b = (if length (shape y) = 1 then shape y @ [1] else shape y)
        in if last a \<noteq> last (butlast b) then Inl RuntimeError
           else and_then (broadcast (butlast (butlast a)) (butlast (butlast b))) (\<lambda>batch.
             Inr (mk K ''matmul'' [] [x, y]
               (batch @ (if length (shape x) = 1 then [] else [last (butlast a)])
                      @ (if length (shape y) = 1 then [] else [last b])))))"

definition softmax :: "'a kernel \<Rightarrow> int \<Rightarrow> 'a tensor \<Rightarrow> error + 'a tensor" where
  "softmax K d x =
     and_then (norm_dim d (max 1 (length (shape x)))) (\<lambda>i. Inr (mk K ''softmax'' [i] [x] (shape x)))"

definition scale_by :: "'a kernel \<Rightarrow> string \<Rightarrow> 'a tensor \<Rightarrow> 'a tensor" where
  "scale_by K nm x = mk K nm [] [x] (shape x)"

definition GELU :: "'a kernel \<Rightarrow> 'a tensor \<Rightarrow> 'a tensor" where
  "GELU K x = mk K ''gelu'' [] [x] (shape x)"

definition Sigmoid :: "'a kernel \<Rightarrow> 'a tensor \<Rightarrow> 'a tensor" where
  "Sigmoid K x = mk K ''sigmoid'' [] [x] (shape x)"

text \<open>
  \<open>torch.cat([x, y], dim)\<close> of two tensors. The second operand may be the \<open>None\<close> of
  Python, which is a type error. A one-dimensional empty tensor is skipped, as the library
  documents; otherwise the ranks agree and so do all dimensions but \<open>dim\<close>.
\<close>

definition cat :: "'a kernel \<Rightarrow> 'a tensor \<Rightarrow> 'a tensor option \<Rightarrow> nat \<Rightarrow> error + 'a tensor" where
  "cat K x yo d =
     (case yo of
        None \<Rightarrow> Inl TypeError
      | Some y \<Rightarrow>
          if shape y = [0] then Inr (mk K ''cat'' [d] [x, y] (shape x))
          else if shape x = [0] then Inr (mk K ''cat'' [d] [x, y] (shape y))
          else if d < length (shape x) \<and> length (shape y) = length (shape x)
                  \<and> (shape y)[d := 0] = (shape x)[d := 0]
          then Inr (mk K ''cat'' [d] [x, y] ((shape x)[d := shape x ! d + shape y ! d]))
          else Inl RuntimeError)"

section \<open>Library layers\<close>

record Linear =
  lin_key :: string
  in_features :: nat
  out_features :: nat

definition Linear_init :: "string \<Rightarrow> nat \<Rightarrow> nat \<Rightarrow> Linear" where
  "Linear_init nm i out = \<lparr>lin_key = nm, in_features = i, out_features = out\<rparr>"

definition Linear_forward :: "'a kernel \<Rightarrow> Linear \<Rightarrow> 'a tensor \<Rightarrow> error + 'a tensor" where
  "Linear_forward K l x =
     (if shape x \<noteq> [] \<and> last (shape x) = in_features l
      then Inr (mk K (lin_key l) [] [x] (butlast (shape x) @ [out_features l]))
      else Inl RuntimeError)"

record LayerNorm =
  ln_key :: string
  normalized_shape :: nat

definition LayerNorm_init :: "string \<Rightarrow> nat \<Rightarrow> LayerNorm" where
  "LayerNorm_init nm d = \<lparr>ln_key = nm, normalized_shape = d\<rparr>"

definition LayerNorm_forward :: "'a kernel \<Rightarrow> LayerNorm \<Rightarrow> 'a tensor \<Rightarrow> error + 'a tensor" where
  "LayerNorm_forward K l x =
     (if shape x \<noteq> [] \<and> last (shape x) = normalized_shape l
      then Inr (mk K (ln_key l) [] [x] (shape x))
      else Inl RuntimeError)"

text \<open>
  \<open>nn.Conv2d\<close> with a square kernel. The constructor rejects a number of groups that is
  zero or does not divide both channel counts. Every convolution of the source receives a
  four-dimensional input; other ranks are rejected here.
\<close>

record Conv2d =
  cv_key :: string
  in_channels :: nat
  out_channels :: nat
  cv_kernel_size :: nat
  cv_stride :: nat
  cv_padding :: nat
  groups :: nat

definition Conv2d_init :: "string \<Rightarrow> nat \<Rightarrow> nat \<Rightarrow> nat \<Rightarrow> nat \<Rightarrow> nat \<Rightarrow> nat \<Rightarrow> error + Conv2d" where
  "Conv2d_init nm i out k s p g =
     (if g = 0 then Inl ValueError
      else if i mod g \<noteq> 0 \<or> out mod g \<noteq> 0 then Inl ValueError
      else Inr \<lparr>cv_key = nm, in_channels = i, out_channels = out, cv_kernel_size = k,
                cv_stride = s, cv_padding = p, groups = g\<rparr>)"

definition conv_out :: "Conv2d \<Rightarrow> nat \<Rightarrow> nat" where
  "conv_out c h = (h + 2 * cv_padding c - cv_kernel_size c) div cv_stride c + 1"

definition Conv2d_forward :: "'a kernel \<Rightarrow> Conv2d \<Rightarrow> 'a tensor \<Rightarrow> error + 'a tensor" where
  "Conv2d_forward K c x =
     (case shape x of
        [n, ch, h, w] \<Rightarrow>
          if ch = in_channels c \<and> 0 < cv_stride c \<and> 0 < cv_kernel_size c
             \<and> cv_kernel_size c \<le> h + 2 * cv_padding c \<and> cv_kernel_size c \<le> w + 2 * cv_padding c
          then Inr (mk K (cv_key c) [] [x] [n, out_channels c, conv_out c h, conv_out c w])
          else Inl RuntimeError
      | _ \<Rightarrow> Inl RuntimeError)"

text \<open>
  \<open>nn.BatchNorm2d\<close>: the input has four dimensions; in training there must be more than
  one value per channel; the channel count is that of the layer. The running statistics
  that training updates are no part of the result.
\<close>

record BatchNorm2d =
  bn_key :: string
  num_features :: nat

definition BatchNorm2d_init :: "string \<Rightarrow> nat \<Rightarrow> BatchNorm2d" where
  "BatchNorm2d_init nm n = \<lparr>bn_key = nm, num_features = n\<rparr>"

definition BatchNorm2d_forward ::
  "'a kernel \<Rightarrow> bool \<Rightarrow> BatchNorm2d \<Rightarrow> 'a tensor \<Rightarrow> error + 'a tensor" where
  "BatchNorm2d_forward K training b x =
     (case shape x of
        [n, ch, h, w] \<Rightarrow>
          if training \<and> n * (h * w) = 1 then Inl ValueError
          else if ch = num_features b then Inr (mk K (bn_key b) [] [x] (shape x))
          else Inl RuntimeError
      | _ \<Rightarrow> Inl ValueError)"

text \<open>
  \<open>nn.Fold\<close> (overlap-add). The constructor checks nothing. The forward pass receives
  \<open>(N, C * kh * kw, L)\<close> and returns \<open>(N, C, out_h, out_w)\<close>; the number of sliding
  blocks per side is computed on integers with floor division, and \<open>L\<close> must be the
  product of the two block counts.
\<close>

record Fold =
  output_size :: "nat \<times> nat"
  fd_kernel_size :: "nat \<times> nat"
  fd_stride :: "nat \<times> nat"
  fd_padding :: "nat \<times> nat"

definition n_blocks :: "nat \<Rightarrow> nat \<Rightarrow> nat \<Rightarrow> nat \<Rightarrow> int" where
  "n_blocks out k s p = (int out + 2 * int p - (int k - 1) - 1) div int s + 1"

definition Fold_forward :: "'a kernel \<Rightarrow> Fold \<Rightarrow> 'a tensor \<Rightarrow> error + 'a tensor" where
  "Fold_forward K f x =
     (case shape x of
        [n, c, l] \<Rightarrow>
          (let kh = fst (fd_kernel_size f); kw = snd (fd_kernel_size f);
               sh = fst (fd_stride f); sw = snd (fd_stride f);
               oh = fst (output_size f); ow = snd (output_size f);
               bh = n_blocks oh kh sh (fst (fd_padding f));
               bw = n_blocks ow kw sw (snd (fd_padding f))
           in if 0 < kh \<and> 0 < kw \<and> 0 < sh \<and> 0 < sw \<and> c \<noteq> 0 \<and> l \<noteq> 0
                 \<and> c mod (kh * kw) = 0 \<and> int l = bh * bw \<and> 1 \<le> bh \<and> 1 \<le> bw
                 \<and> 1 \<le> oh \<and> 1 \<le> ow
              then Inr (mk K ''fold'' [oh, ow, kh, kw, sh, sw, fst (fd_padding f), snd (fd_padding f)]
                          [x] [n, c div (kh * kw), oh, ow])
              else Inl RuntimeError)
      | _ \<Rightarrow> Inl RuntimeError)"

text \<open>The two-layer projection \<open>nn.Sequential(Linear, GELU, Linear)\<close>.\<close>

record Sequential =
  seq_0 :: Linear
  seq_2 :: Linear

definition Sequential_forward :: "'a kernel \<Rightarrow> Sequential \<Rightarrow> 'a tensor \<Rightarrow> error + 'a tensor" where
  "Sequential_forward K s x =
     and_then (Linear_forward K (seq_0 s) x) (\<lambda>x.
     Linear_forward K (seq_2 s) (GELU K x))"

text \<open>
  \<open>B, N, C = x.shape\<close> and \<open>B, C, H, W = x.shape\<close>: unpacking a shape of another length
  is a \<open>ValueError\<close>.
\<close>

definition unpack3 :: "'a tensor \<Rightarrow> error + nat \<times> nat \<times> nat" where
  "unpack3 x = (case shape x of [a, b, c] \<Rightarrow> Inr (a, b, c) | _ \<Rightarrow> Inl ValueError)"

definition unpack4 :: "'a tensor \<Rightarrow> error + nat \<times> nat \<times> nat \<times> nat" where
  "unpack4 x = (case shape x of [a, b, c, d] \<Rightarrow> Inr (a, b, c, d) | _ \<Rightarrow> Inl ValueError)"

text \<open>
  \<open>qk_scale or head_dim ** -0.5\<close>: with no (or a zero) \<open>qk_scale\<close> the power is computed,
  and zero to a negative power is a \<open>ZeroDivisionError\<close>. Only whether a usable
  \<open>qk_scale\<close> was given matters here; the scale itself is a weight of the layer.
\<close>

definition head_scale :: "bool \<Rightarrow> nat \<Rightarrow> error + unit" where
  "head_scale qk_scale_given head_dim =
     (if qk_scale_given then Inr () else if head_dim = 0 then Inl ZeroDivisionError else Inr ())"

definition floordiv :: "nat \<Rightarrow> nat \<Rightarrow> error + nat" where
  "floordiv a b = (if b = 0 then Inl ZeroDivisionError else Inr (a div b))"

section \<open>CrossAttention\<close>

record CrossAttention =
  ca_key :: string
  ca_num_heads :: nat
  ca_dim :: nat
  ca_dim1 :: nat
  ca_dim2 :: nat
  ca_q1 :: Linear
  ca_proj :: Linear
  ca_k2 :: Linear
  ca_v2 :: Linear

definition CrossAttention_init ::
  "string \<Rightarrow> nat \<Rightarrow> nat \<Rightarrow> nat \<Rightarrow> nat \<Rightarrow> bool \<Rightarrow> error + CrossAttention" where
  "CrossAttention_init nm dim1 dim2 dim num_heads qk_scale_given =
     and_then (floordiv dim num_heads) (\<lambda>head_dim.
     and_then (head_scale qk_scale_given head_dim) (\<lambda>u.
       Inr \<lparr>ca_key = nm, ca_num_heads = num_heads, ca_dim = dim, ca_dim1 = dim1, ca_dim2 = dim2,
            ca_q1 = Linear_init (nm @ ''.q1'') dim1 dim,
            ca_proj = Linear_init (nm @ ''.proj'') dim dim1,
            ca_k2 = Linear_init (nm @ ''.k2'') dim2 dim,
            ca_v2 = Linear_init (nm @ ''.v2'') dim2 dim\<rparr>))"

definition CrossAttention_forward ::
  "'a kernel \<Rightarrow> CrossAttention \<Rightarrow> 'a tensor \<Rightarrow> 'a tensor \<Rightarrow> error + 'a tensor" where
  "CrossAttention_forward K m fea depth_fea =
     and_then (unpack3 fea) (\<lambda>(_, N1, _).
     and_then (unpack3 depth_fea) (\<lambda>(B, N, _).
     let C = ca_dim m; h = ca_num_heads m in
     and_then (Linear_forward K (ca_q1 m) fea) (\<lambda>q1.
     and_then (reshape K [Some B, Some N1, Some h, Some (C div h)] q1) (\<lambda>q1.
     and_then (permute K [0, 2, 1, 3] q1) (\<lambda>q1.
     and_then (Linear_forward K (ca_k2 m) depth_fea) (\<lambda>k2.
     and_then (reshape K [Some B, Some N, Some h, Some (C div h)] k2) (\<lambda>k2.
     and_then (permute K [0, 2, 1, 3] k2) (\<lambda>k2.
     and_then (Linear_forward K (ca_v2 m) depth_fea) (\<lambda>v2.
     and_then (reshape K [Some B, Some N, Some h, Some (C div h)] v2) (\<lambda>v2.
     and_then (permute K [0, 2, 1, 3] v2) (\<lambda>v2.
     and_then (transpose K (- 2) (- 1) k2) (\<lambda>k2t.
     and_then (matmul K q1 k2t) (\<lambda>attn.
     and_then (softmax K (- 1) (scale_by K (ca_key m @ ''.scale'') attn)) (\<lambda>attn.
     and_then (matmul K attn v2) (\<lambda>fea.
     and_then (transpose K 1 2 fea) (\<lambda>fea.
     and_then (reshape K [Some B, Some N1, Some C] fea) (\<lambda>fea.
     Linear_forward K (ca_proj m) fea)))))))))))))))))"

section \<open>PatchEmbed\<close>

record PatchEmbed =
  pe_img_size :: "nat \<times> nat"
  pe_patch_size :: "nat \<times> nat"
  pe_num_patches :: nat
  pe_project :: Linear
  pe_upsample :: Fold
  pe_norm :: LayerNorm
  pe_norm2 :: LayerNorm
  pe_norm3 :: LayerNorm
  pe_lpu :: Conv2d
  pe_fuse :: bool
  pe_concatFuse :: Sequential
  pe_interact :: "CrossAttention option"

definition to_2tuple :: "nat \<Rightarrow> nat \<times> nat" where
  "to_2tuple n = (n, n)"

definition PatchEmbed_init ::
  "string \<Rightarrow> nat \<Rightarrow> nat \<Rightarrow> nat \<Rightarrow> nat \<Rightarrow> nat \<Rightarrow> nat \<Rightarrow> nat \<Rightarrow> bool \<Rightarrow> error + PatchEmbed" where
  "PatchEmbed_init nm img_size patch_size in_chans embed_dim kernel_size stride padding fuse =
     (let ms = img_size;
          img_size = to_2tuple img_size;
          patch_size = to_2tuple patch_size;
          num_patches = (snd img_size * snd patch_size) * (fst img_size * fst patch_size)
      in
      and_then (Conv2d_init (nm @ ''.lpu'') in_chans in_chans 3 1 1 1) (\<lambda>lpu.
      and_then (if fuse
                then and_then (CrossAttention_init (nm @ ''.interact'') embed_dim in_chans embed_dim 4 False)
                       (\<lambda>ca. Inr (Some ca))
                else Inr None) (\<lambda>interact.
        Inr \<lparr>pe_img_size = img_size, pe_patch_size = patch_size, pe_num_patches = num_patches,
             pe_project = Linear_init (nm @ ''.project'') in_chans (in_chans * kernel_size * kernel_size),
             pe_upsample = \<lparr>output_size = (ms * stride, ms * stride),
                             fd_kernel_size = (kernel_size, kernel_size),
                             fd_stride = (stride, stride), fd_padding = (padding, padding)\<rparr>,
             pe_norm = LayerNorm_init (nm @ ''.norm'') in_chans,
             pe_norm2 = LayerNorm_init (nm @ ''.norm2'') embed_dim,
             pe_norm3 = LayerNorm_init (nm @ ''.norm3'') embed_dim,
             pe_lpu = lpu,
             pe_fuse = fuse,
             pe_concatFuse =
               (if fuse
                then \<lparr>seq_0 = Linear_init (nm @ ''.concatFuse.0'') (in_chans + embed_dim) in_chans,
                      seq_2 = Linear_init (nm @ ''.concatFuse.2'') in_chans embed_dim\<rparr>
                else \<lparr>seq_0 = Linear_init (nm @ ''.concatFuse.0'') in_chans in_chans,
                      seq_2 = Linear_init (nm @ ''.concatFuse.2'') in_chans embed_dim\<rparr>),
             pe_interact = interact\<rparr>)))"

text \<open>
  \<open>PatchEmbed.forward(x, enc_fea)\<close>. The skip feature \<open>enc_fea\<close> may be \<open>None\<close>, as
  the decoder passes it to the stage without fusion. An instance built by the constructor
  has its \<open>interact\<close> layer exactly when \<open>fuse\<close> is set; reading the attribute of an
  instance without it is an error.
\<close>

definition PatchEmbed_forward ::
  "'a kernel \<Rightarrow> PatchEmbed \<Rightarrow> 'a tensor \<Rightarrow> 'a tensor option \<Rightarrow> error + ('a tensor \<times> (nat \<times> nat))" where
  "PatchEmbed_forward K m x enc_fea =
     and_then (unpack4 x) (\<lambda>(B, C, H, W).
     if \<not> (H = fst (pe_img_size m) \<and> W = snd (pe_img_size m)) then Inl AssertionError
     else
     and_then (flatten K 2 x) (\<lambda>x.
     and_then (transpose K 1 2 x) (\<lambda>x.
     and_then (Linear_forward K (pe_project m) x) (\<lambda>x.
     and_then (transpose K 1 2 x) (\<lambda>x.
     and_then (Fold_forward K (pe_upsample m) x) (\<lambda>x.
     and_then (Conv2d_forward K (pe_lpu m) x) (\<lambda>l.
     and_then (add K l x) (\<lambda>x.
     and_then (flatten K 2 x) (\<lambda>x.
     and_then (transpose K 1 2 x) (\<lambda>x.
     and_then (LayerNorm_forward K (pe_norm m) x) (\<lambda>x.
     let x0 = x;
         HW = (H * fst (pe_patch_size m), W * snd (pe_patch_size m))
     in
     if pe_fuse m then
       and_then (cat K x enc_fea 2) (\<lambda>x.
       and_then (Sequential_forward K (pe_concatFuse m) x) (\<lambda>x.
       and_then (LayerNorm_forward K (pe_norm2 m) x) (\<lambda>x.
       and_then (case pe_interact m of None \<Rightarrow> Inl AttributeError
                 | Some ca \<Rightarrow> CrossAttention_forward K ca x x0) (\<lambda>i.
       and_then (add K x i) (\<lambda>x.
       and_then (LayerNorm_forward K (pe_norm3 m) x) (\<lambda>x.
       Inr (x, HW)))))))
     else
       and_then (Sequential_forward K (pe_concatFuse m) x) (\<lambda>x.
       and_then (LayerNorm_forward K (pe_norm2 m) x) (\<lambda>x.
       Inr (x, HW))))))))))))))"

section \<open>Attention and Block\<close>

record Attention =
  at_key :: string
  at_num_heads :: nat
  at_qk_dim :: nat
  at_q :: Linear
  at_k :: Linear
  at_v :: Linear
  at_proj :: Linear
  at_sr_ratio :: nat
  at_sr :: "(Conv2d \<times> BatchNorm2d) option"

definition Attention_init ::
  "string \<Rightarrow> nat \<Rightarrow> nat \<Rightarrow> bool \<Rightarrow> nat \<Rightarrow> nat \<Rightarrow> error + Attention" where
  "Attention_init nm dim num_heads qk_scale_given qk_ratio sr_ratio =
     and_then (floordiv dim num_heads) (\<lambda>head_dim.
     and_then (head_scale qk_scale_given head_dim) (\<lambda>u.
     and_then (floordiv dim qk_ratio) (\<lambda>qk_dim.
     and_then (if sr_ratio > 1
               then and_then (Conv2d_init (nm @ ''.sr.0'') dim dim sr_ratio sr_ratio 0 dim)
                      (\<lambda>c. Inr (Some (c, BatchNorm2d_init (nm @ ''.sr.1'') dim)))
               else Inr None) (\<lambda>sr.
       Inr \<lparr>at_key = nm, at_num_heads = num_heads, at_qk_dim = qk_dim,
            at_q = Linear_init (nm @ ''.q'') dim qk_dim,
            at_k = Linear_init (nm @ ''.k'') dim qk_dim,
            at_v = Linear_init (nm @ ''.v'') dim dim,
            at_proj = Linear_init (nm @ ''.proj'') dim dim,
            at_sr_ratio = sr_ratio, at_sr = sr\<rparr>))))"

text \<open>The keys and values of \<open>Attention.forward\<close>, from the spatially reduced input when
  \<open>sr_ratio > 1\<close> and from the input itself otherwise.\<close>

definition Attention_kv ::
  "'a kernel \<Rightarrow> bool \<Rightarrow> Attention \<Rightarrow> 'a tensor \<Rightarrow> nat \<Rightarrow> nat \<Rightarrow> nat \<Rightarrow> nat \<Rightarrow> nat \<Rightarrow>
   error + ('a tensor \<times> 'a tensor)" where
  "Attention_kv K training m x B N C H W =
     (let h = at_num_heads m in
      if at_sr_ratio m > 1 then
        and_then (permute K [0, 2, 1] x) (\<lambda>xr.
        and_then (reshape K [Some B, Some C, Some H, Some W] xr) (\<lambda>xr.
        and_then (case at_sr m of None \<Rightarrow> Inl AttributeError
                  | Some (conv, bn) \<Rightarrow>
                      and_then (Conv2d_forward K conv xr) (BatchNorm2d_forward K training bn)) (\<lambda>xr.
        and_then (reshape K [Some B, Some C, None] xr) (\<lambda>xr.
        and_then (permute K [0, 2, 1] xr) (\<lambda>xr.
        and_then (Linear_forward K (at_k m) xr) (\<lambda>k.
        and_then (reshape K [Some B, None, Some h, Some (at_qk_dim m div h)] k) (\<lambda>k.
        and_then (permute K [0, 2, 1, 3] k) (\<lambda>k.
        and_then (Linear_forward K (at_v m) xr) (\<lambda>v.
        and_then (reshape K [Some B, None, Some h, Some (C div h)] v) (\<lambda>v.
        and_then (permute K [0, 2, 1, 3] v) (\<lambda>v.
        Inr (k, v))))))))))))
      else
        and_then (Linear_forward K (at_k m) x) (\<lambda>k.
        and_then (reshape K [Some B, Some N, Some h, Some (at_qk_dim m div h)] k) (\<lambda>k.
        and_then (permute K [0, 2, 1, 3] k) (\<lambda>k.
        and_then (Linear_forward K (at_v m) x) (\<lambda>v.
        and_then (reshape K [Some B, Some N, Some h, Some (C div h)] v) (\<lambda>v.
        and_then (permute K [0, 2, 1, 3] v) (\<lambda>v.
        Inr (k, v))))))))"

definition Attention_forward ::
  "'a kernel \<Rightarrow> bool \<Rightarrow> Attention \<Rightarrow> 'a tensor \<Rightarrow> nat \<Rightarrow> nat \<Rightarrow> 'a tensor \<Rightarrow> error + 'a tensor" where
  "Attention_forward K training m x H W relative_pos =
     and_then (unpack3 x) (\<lambda>(B, N, C).
     and_then (Linear_forward K (at_q m) x) (\<lambda>q.
     and_then (reshape K [Some B, Some N, Some (at_num_heads m),
                          Some (at_qk_dim m div at_num_heads m)] q) (\<lambda>q.
     and_then (permute K [0, 2, 1, 3] q) (\<lambda>q.
     and_then (Attention_kv K training m x B N C H W) (\<lambda>(k, v).
     and_then (transpose K (- 2) (- 1) k) (\<lambda>kt.
     and_then (matmul K q kt) (\<lambda>attn.
     and_then (add K (scale_by K (at_key m @ ''.scale'') attn) relative_pos) (\<lambda>attn.
     and_then (softmax K (- 1) attn) (\<lambda>attn.
     and_then (matmul K attn v) (\<lambda>x.
     and_then (transpose K 1 2 x) (\<lambda>x.
     and_then (reshape K [Some B, Some N, Some C] x) (\<lambda>x.
     Linear_forward K (at_proj m) x))))))))))))"

record Block =
  blk_norm1 :: LayerNorm
  blk_attn :: Attention
  blk_norm2 :: LayerNorm
  blk_proj :: Conv2d

definition Block_init ::
  "string \<Rightarrow> nat \<Rightarrow> nat \<Rightarrow> bool \<Rightarrow> nat \<Rightarrow> nat \<Rightarrow> error + Block" where
  "Block_init nm dim num_heads qk_scale_given qk_ratio sr_ratio =
     and_then (Attention_init (nm @ ''.attn'') dim num_heads qk_scale_given qk_ratio sr_ratio) (\<lambda>attn.
     and_then (Conv2d_init (nm @ ''.proj'') dim dim 3 1 1 dim) (\<lambda>proj.
       Inr \<lparr>blk_norm1 = LayerNorm_init (nm @ ''.norm1'') dim, blk_attn = attn,
            blk_norm2 = LayerNorm_init (nm @ ''.norm2'') dim, blk_proj = proj\<rparr>))"

definition Block_forward ::
  "'a kernel \<Rightarrow> bool \<Rightarrow> Block \<Rightarrow> 'a tensor \<Rightarrow> nat \<Rightarrow> nat \<Rightarrow> 'a tensor \<Rightarrow> error + 'a tensor" where
  "Block_forward K training m x H W relative_pos =
     and_then (unpack3 x) (\<lambda>(B, N, C).
     and_then (LayerNorm_forward K (blk_norm1 m) x) (\<lambda>n.
     and_then (Attention_forward K training (blk_attn m) n H W relative_pos) (\<lambda>a.
     and_then (add K x a) (\<lambda>x.
     and_then (permute K [0, 2, 1] x) (\<lambda>p.
     and_then (reshape K [Some B, Some C, Some H, Some W] p) (\<lambda>cnn_feat.
     and_then (Conv2d_forward K (blk_proj m) cnn_feat) (\<lambda>c.
     and_then (add K c cnn_feat) (\<lambda>x.
     and_then (flatten K 2 x) (\<lambda>x.
     permute K [0, 2, 1] x)))))))))"

text \<open>\<open>for i, blk in enumerate(blocks): x = blk(x, H, W, relative_pos)\<close>\<close>

fun run_blocks ::
  "'a kernel \<Rightarrow> bool \<Rightarrow> Block list \<Rightarrow> 'a tensor \<Rightarrow> nat \<Rightarrow> nat \<Rightarrow> 'a tensor \<Rightarrow> error + 'a tensor" where
  "run_blocks K training [] x H W relative_pos = Inr x"
| "run_blocks K training (blk # blks) x H W relative_pos =
     and_then (Block_forward K training blk x H W relative_pos)
       (\<lambda>x. run_blocks K training blks x H W relative_pos)"

section \<open>DecoderC\<close>

text \<open>Indexing a Python list; decimal digits for the keys of the blocks of a stack.\<close>

definition index :: "'b list \<Rightarrow> nat \<Rightarrow> error + 'b" where
  "index xs i = (if i < length xs then Inr (xs ! i) else Inl IndexError)"

function str :: "nat \<Rightarrow> string" where
  "str n = (if n < 10 then [char_of (48 + n)] else str (n div 10) @ [char_of (48 + n mod 10)])"
  by pat_completeness auto
termination
  by (relation "measure (\<lambda>n. n)") auto

declare str.simps [simp del]

fun collect :: "(error + 'b) list \<Rightarrow> error + 'b list" where
  "collect [] = Inr []"
| "collect (r # rs) = and_then r (\<lambda>v. and_then (collect rs) (\<lambda>vs. Inr (v # vs)))"

record 'a DecoderC =
  dec_norm :: LayerNorm
  dec_mlp :: Sequential
  dec_img_size :: nat
  dec_patch_embed_b :: PatchEmbed
  dec_patch_embed_c :: PatchEmbed
  dec_patch_embed_d :: PatchEmbed
  dec_relative_pos_c :: "'a tensor"
  dec_relative_pos_d :: "'a tensor"
  dec_pre_1_16 :: Linear
  dec_pre_1_8 :: Linear
  dec_pre_1_4 :: Linear
  dec_pre_1_1 :: Linear
  dec_blocks_c :: "Block list"
  dec_blocks_d :: "Block list"

text \<open>
  \<open>DecoderC.__init__\<close> in the arguments that reach a layer: \<open>img_size\<close>,
  \<open>embed_dims\<close>, \<open>num_heads\<close>, \<open>qk_scale\<close> (given or not), \<open>depths\<close>, \<open>qk_ratio\<close>
  and \<open>sr_ratios\<close>. The other arguments keep their defaults (no representation layer,
  drop rates zero).
\<close>

definition relative_pos_init ::
  "'a kernel \<Rightarrow> string \<Rightarrow> nat \<Rightarrow> nat \<Rightarrow> nat \<Rightarrow> error + 'a tensor" where
  "relative_pos_init K nm heads num_patches sr =
     and_then (floordiv num_patches sr) (\<lambda>n1.
     and_then (floordiv n1 sr) (\<lambda>n2.
       Inr (mk K nm [] [] [heads, num_patches, n2])))"

definition DecoderC_init ::
  "'a kernel \<Rightarrow> nat \<Rightarrow> nat list \<Rightarrow> nat list \<Rightarrow> bool \<Rightarrow> nat list \<Rightarrow> nat \<Rightarrow> nat list \<Rightarrow>
   error + 'a DecoderC" where
  "DecoderC_init K img_size embed_dims num_heads qk_scale_given depths qk_ratio sr_ratios =
     and_then (index embed_dims 0) (\<lambda>e0.
     and_then (index embed_dims 1) (\<lambda>e1.
     and_then (index embed_dims 2) (\<lambda>e2.
     and_then (index embed_dims 3) (\<lambda>e3.
     and_then (PatchEmbed_init ''patch_embed_b'' (img_size div 4) 4 e2 e3 7 4 2 False) (\<lambda>pb.
     and_then (PatchEmbed_init ''patch_embed_c'' (img_size div 8) 2 e1 e2 3 2 1 True) (\<lambda>pc.
     and_then (PatchEmbed_init ''patch_embed_d'' (img_size div 16) 2 e0 e1 3 2 1 True) (\<lambda>pd.
     and_then (index num_heads 2) (\<lambda>h2.
     and_then (index sr_ratios 2) (\<lambda>sr2.
     and_then (relative_pos_init K ''relative_pos_c'' h2 (pe_num_patches pc) sr2) (\<lambda>rc.
     and_then (index num_heads 3) (\<lambda>h3.
     and_then (index sr_ratios 3) (\<lambda>sr3.
     and_then (relative_pos_init K ''relative_pos_d'' h3 (pe_num_patches pd) sr3) (\<lambda>rd.
     and_then (index depths 0) (\<lambda>u.
     and_then (index depths 1) (\<lambda>u.
     and_then (index depths 2) (\<lambda>d2.
     and_then (collect (map (\<lambda>i. Block_init (''blocks_c.'' @ str i) e2 h2 qk_scale_given qk_ratio sr2)
                          [0 ..< d2])) (\<lambda>bc.
     and_then (index depths 3) (\<lambda>d3.
     and_then (collect (map (\<lambda>i. Block_init (''blocks_d.'' @ str i) e1 h3 qk_scale_given qk_ratio sr3)
                          [0 ..< d3])) (\<lambda>bd.
       Inr \<lparr>dec_norm = LayerNorm_init ''norm'' e0,
            dec_mlp = \<lparr>seq_0 = Linear_init ''mlp.0'' e0 e0, seq_2 = Linear_init ''mlp.2'' e0 e1\<rparr>,
            dec_img_size = img_size,
            dec_patch_embed_b = pb, dec_patch_embed_c = pc, dec_patch_embed_d = pd,
            dec_relative_pos_c = rc, dec_relative_pos_d = rd,
            dec_pre_1_16 = Linear_init ''pre_1_16'' e1 1,
            dec_pre_1_8 = Linear_init ''pre_1_8'' e1 1,
            dec_pre_1_4 = Linear_init ''pre_1_4'' e2 1,
            dec_pre_1_1 = Linear_init ''pre_1_1'' e3 1,
            dec_blocks_c = bc, dec_blocks_d = bd\<rparr>)))))))))))))))))))"

text \<open>The default configuration of the constructor.\<close>

definition DecoderC_default :: "'a kernel \<Rightarrow> error + 'a DecoderC" where
  "DecoderC_default K =
     DecoderC_init K 224 [384, 128, 64, 16, 4] [1, 2, 4, 8] False [2, 3, 6, 3] 1 [8, 4, 2, 1]"

text \<open>A mask head: \<open>pre(x).transpose(1, 2).reshape(B, 1, s, s)\<close>.\<close>

definition mask_head :: "'a kernel \<Rightarrow> Linear \<Rightarrow> 'a tensor \<Rightarrow> nat \<Rightarrow> nat \<Rightarrow> error + 'a tensor" where
  "mask_head K pre x B s =
     and_then (Linear_forward K pre x) (\<lambda>m.
     and_then (transpose K 1 2 m) (\<lambda>m.
     reshape K [Some B, Some 1, Some s, Some s] m))"

text \<open>\<open>x.reshape(B, H, W, -1).permute(0, 3, 1, 2).contiguous()\<close>\<close>

definition to_grid :: "'a kernel \<Rightarrow> 'a tensor \<Rightarrow> nat \<Rightarrow> nat \<Rightarrow> nat \<Rightarrow> error + 'a tensor" where
  "to_grid K x B H W =
     and_then (reshape K [Some B, Some H, Some W, None] x) (\<lambda>x.
     permute K [0, 3, 1, 2] x)"

definition forward_features ::
  "'a kernel \<Rightarrow> bool \<Rightarrow> 'a DecoderC \<Rightarrow> 'a tensor \<Rightarrow> 'a tensor \<Rightarrow> 'a tensor \<Rightarrow>
   error + 'a tensor list" where
  "forward_features K training m x x_1_8 x_1_4 =
     and_then (unpack3 x) (\<lambda>(B, N, C).
     and_then (LayerNorm_forward K (dec_norm m) x) (\<lambda>n.
     and_then (Sequential_forward K (dec_mlp m) n) (\<lambda>saliency_fea_1_16.
     and_then (mask_head K (dec_pre_1_16 m) saliency_fea_1_16 B (dec_img_size m div 16)) (\<lambda>mask_1_16.
     and_then (transpose K 1 2 x) (\<lambda>x.
     and_then (reshape K [Some B, Some C, Some 14, Some 14] x) (\<lambda>x.
     and_then (PatchEmbed_forward K (dec_patch_embed_d m) x (Some x_1_8)) (\<lambda>(x, (H, W)).
     and_then (run_blocks K training (dec_blocks_d m) x H W (dec_relative_pos_d m)) (\<lambda>x.
     and_then (mask_head K (dec_pre_1_8 m) x B (dec_img_size m div 8)) (\<lambda>mask_1_8.
     and_then (to_grid K x B H W) (\<lambda>x.
     and_then (PatchEmbed_forward K (dec_patch_embed_c m) x (Some x_1_4)) (\<lambda>(x, (H, W)).
     and_then (run_blocks K training (dec_blocks_c m) x H W (dec_relative_pos_c m)) (\<lambda>x.
     and_then (mask_head K (dec_pre_1_4 m) x B (dec_img_size m div 4)) (\<lambda>mask_1_4.
     and_then (to_grid K x B H W) (\<lambda>x.
     and_then (PatchEmbed_forward K (dec_patch_embed_b m) x None) (\<lambda>(x, (H, W)).
     and_then (mask_head K (dec_pre_1_1 m) x B (dec_img_size m div 1)) (\<lambda>mask_1_1.
     Inr [mask_1_16, mask_1_8, mask_1_4, mask_1_1]))))))))))))))))"

definition DecoderC_forward ::
  "'a kernel \<Rightarrow> bool \<Rightarrow> 'a DecoderC \<Rightarrow> 'a tensor \<Rightarrow> 'a tensor \<Rightarrow> 'a tensor \<Rightarrow>
   error + 'a tensor list" where
  "DecoderC_forward K training m x x_1_8 x_1_4 =
     and_then (forward_features K training m x x_1_8 x_1_4) (\<lambda>masks.
       case masks of
         [mask_1_16, mask_1_8, mask_1_4, mask_1_1] \<Rightarrow>
           let m_1 = Sigmoid K mask_1_1;
               m_4 = Sigmoid K mask_1_4;
               m_8 = Sigmoid K mask_1_8;
               m_16 = Sigmoid K mask_1_16
           in Inr [mask_1_16, mask_1_8, mask_1_4, mask_1_1, m_16, m_8, m_4, m_1]
       | _ \<Rightarrow> Inl ValueError)"

section \<open>The dataset loader: \<open>load_list\<close>\<close>

text \<open>\<open>img[:-4]\<close>: the name without its last four characters (empty for a shorter name).\<close>

definition stem :: "string \<Rightarrow> string" where
  "stem img = take (length img - 4) img"

text \<open>
  \<open>s.replace(old, new)\<close> for a non-empty \<open>old\<close>: every occurrence, from the left,
  without overlap.
\<close>

function replace :: "string \<Rightarrow> string \<Rightarrow> string \<Rightarrow> string" where
  "replace old new [] = []"
| "replace old new (c # cs) =
     (if old \<noteq> [] \<and> prefix old (c # cs)
      then new @ replace old new (drop (length old) (c # cs))
      else c # replace old new cs)"
  by pat_completeness auto
termination
  by (relation "measure (\<lambda>(old, new, s). length s)") (auto simp: neq_Nil_conv)

text \<open>
  One \<open>for img in img_files\<close> loop: each file name appends one image path and one label
  path, with the extensions of that branch.
\<close>

fun append_paths ::
  "string \<Rightarrow> string \<Rightarrow> string \<Rightarrow> string list \<Rightarrow> string list \<times> string list \<Rightarrow> string list \<times> string list" where
  "append_paths img_root ext_image ext_label [] (images, labels) = (images, labels)"
| "append_paths img_root ext_image ext_label (img # img_files) (images, labels) =
     append_paths img_root ext_image ext_label img_files
       (images @ [img_root @ stem img @ ext_image],
        labels @ [replace ''/train_A/'' ''/train_B/'' img_root @ stem img @ ext_label])"

text \<open>
  One branch: list the directory (\<open>os.listdir\<close>, a parameter here, which may raise) and
  run the loop.
\<close>

definition branch ::
  "(string \<Rightarrow> error + string list) \<Rightarrow> string \<Rightarrow> string \<Rightarrow> string \<Rightarrow>
   string list \<times> string list \<Rightarrow> error + string list \<times> string list" where
  "branch listdir img_root ext_image ext_label acc =
     and_then (listdir img_root) (\<lambda>img_files.
       Inr (append_paths img_root ext_image ext_label img_files acc))"

definition load_list ::
  "(string \<Rightarrow> error + string list) \<Rightarrow> string \<Rightarrow> string \<Rightarrow> error + string list \<times> string list" where
  "load_list listdir dataset_name data_root =
     and_then (branch listdir (data_root @ ''ISTD_SP'' @ ''/train_A/'') ''.png'' ''.png'' ([], [])) (\<lambda>acc.
     and_then (branch listdir (data_root @ ''ISTD_DSC'' @ ''/train_A/'') ''.png'' ''.png'' acc) (\<lambda>acc.
     and_then (branch listdir (data_root @ ''ISTD_DC'' @ ''/train_A/'') ''.png'' ''.png'' acc) (\<lambda>acc.
     and_then (branch listdir (data_root @ ''ISTD_BM'' @ ''/train_A/'') ''.png'' ''.png'' acc) (\<lambda>acc.
     and_then (branch listdir (data_root @ ''ISTD_TG'' @ ''/train_A/'') ''.png'' ''.png'' acc) (\<lambda>acc.
     and_then (branch listdir (data_root @ ''SRD_BM'' @ ''/train_A/'') ''.jpg'' ''.jpg'' acc) (\<lambda>acc.
     and_then (branch listdir (data_root @ ''SRD_DC'' @ ''/train_A/'') ''.png'' ''.jpg'' acc) (\<lambda>acc.
     and_then (branch listdir (data_root @ ''SRD_DSC'' @ ''/train_A/'') ''.jpg'' ''.jpg'' acc) (\<lambda>acc.
     branch listdir (data_root @ ''SRD_TG'' @ ''/train_A/'') ''.jpg'' ''.jpg'' acc))))))))"

text \<open>The paths that one branch contributes, for stating what \<open>load_list\<close> returns.\<close>

definition image_paths :: "string \<Rightarrow> string \<Rightarrow> string list \<Rightarrow> string list" where
  "image_paths img_root ext img_files = map (\<lambda>img. img_root @ stem img @ ext) img_files"

definition label_paths :: "string \<Rightarrow> string \<Rightarrow> string list \<Rightarrow> string list" where
  "label_paths img_root ext img_files =
     map (\<lambda>img. replace ''/train_A/'' ''/train_B/'' img_root @ stem img @ ext) img_files"

section \<open>Concrete kernels and tensors for instances of the theorems\<close>

text \<open>A kernel with trivial contents, and the tensor of a given shape over it.\<close>

definition unit_kernel :: "unit kernel" where
  "unit_kernel nm attrs ins = ()"

definition tensor_of :: "nat list \<Rightarrow> unit tensor" where
  "tensor_of sh = \<lparr>shape = sh, data = ()\<rparr>"

section \<open>The phases of \<open>PatchEmbed.forward\<close>\<close>

text \<open>
  The body of \<open>PatchEmbed.forward\<close> after the size check, cut into its three parts for
  the proofs: the upsampling to tokens, the branch with fusion and the branch without.
  Lemma \<open>PatchEmbed_forward_phases\<close> shows that \<open>PatchEmbed_forward\<close> is their composition.
\<close>

definition pe_tokens :: "'a kernel \<Rightarrow> PatchEmbed \<Rightarrow> 'a tensor \<Rightarrow> error + 'a tensor" where
  "pe_tokens K m x =
     and_then (flatten K 2 x) (\<lambda>x.
     and_then (transpose K 1 2 x) (\<lambda>x.
     and_then (Linear_forward K (pe_project m) x) (\<lambda>x.
     and_then (transpose K 1 2 x) (\<lambda>x.
     and_then (Fold_forward K (pe_upsample m) x) (\<lambda>x.
     and_then (Conv2d_forward K (pe_lpu m) x) (\<lambda>l.
     and_then (add K l x) (\<lambda>x.
     and_then (flatten K 2 x) (\<lambda>x.
     and_then (transpose K 1 2 x) (\<lambda>x.
     LayerNorm_forward K (pe_norm m) x)))))))))"

definition pe_fused ::
  "'a kernel \<Rightarrow> PatchEmbed \<Rightarrow> 'a tensor \<Rightarrow> 'a tensor option \<Rightarrow> error + 'a tensor" where
  "pe_fused K m x0 enc_fea =
     and_then (cat K x0 enc_fea 2) (\<lambda>x.
     and_then (Sequential_forward K (pe_concatFuse m) x) (\<lambda>x.
     and_then (LayerNorm_forward K (pe_norm2 m) x) (\<lambda>x.
     and_then (case pe_interact m of None \<Rightarrow> Inl AttributeError
               | Some ca \<Rightarrow> CrossAttention_forward K ca x x0) (\<lambda>i.
     and_then (add K x i) (\<lambda>x.
     LayerNorm_forward K (pe_norm3 m) x)))))"

definition pe_plain :: "'a kernel \<Rightarrow> PatchEmbed \<Rightarrow> 'a tensor \<Rightarrow> error + 'a tensor" where
  "pe_plain K m x =
     and_then (Sequential_forward K (pe_concatFuse m) x) (\<lambda>x.
     LayerNorm_forward K (pe_norm2 m) x)"

section \<open>The phases of \<open>Attention.forward\<close>\<close>

text \<open>
  The body of \<open>Attention.forward\<close> cut at the line \<open>attn = attn + relative_pos\<close>: the
  scaled logits with the values before it, the softmax and the output projection after it.
  Lemma \<open>Attention_forward_phases\<close> shows that \<open>Attention_forward\<close> is their composition
  around the addition of the bias.
\<close>

definition Attention_logits ::
  "'a kernel \<Rightarrow> bool \<Rightarrow> Attention \<Rightarrow> 'a tensor \<Rightarrow> nat \<Rightarrow> nat \<Rightarrow> error + ('a tensor \<times> 'a tensor)" where
  "Attention_logits K training m x H W =
     and_then (unpack3 x) (\<lambda>(B, N, C).
     and_then (Linear_forward K (at_q m) x) (\<lambda>q.
     and_then (reshape K [Some B, Some N, Some (at_num_heads m),
                          Some (at_qk_dim m div at_num_heads m)] q) (\<lambda>q.
     and_then (permute K [0, 2, 1, 3] q) (\<lambda>q.
     and_then (Attention_kv K training m x B N C H W) (\<lambda>(k, v).
     and_then (transpose K (- 2) (- 1) k) (\<lambda>kt.
     and_then (matmul K q kt) (\<lambda>attn.
     Inr (scale_by K (at_key m @ ''.scale'') attn, v))))))))"

definition Attention_finish ::
  "'a kernel \<Rightarrow> Attention \<Rightarrow> 'a tensor \<Rightarrow> 'a tensor \<Rightarrow> 'a tensor \<Rightarrow> error + 'a tensor" where
  "Attention_finish K m x attn v =
     and_then (unpack3 x) (\<lambda>(B, N, C).
     and_then (softmax K (- 1) attn) (\<lambda>attn.
     and_then (matmul K attn v) (\<lambda>x.
     and_then (transpose K 1 2 x) (\<lambda>x.
     and_then (reshape K [Some B, Some N, Some C] x) (\<lambda>x.
     Linear_forward K (at_proj m) x)))))"

text \<open>
  The number of keys of \<open>Attention.forward\<close> on a grid of \<open>H \<times> W\<close> tokens: the grid
  after the strided convolution when \<open>sr_ratio > 1\<close>, the grid itself otherwise.
\<close>

definition kv_count :: "nat \<Rightarrow> nat \<Rightarrow> nat \<Rightarrow> nat" where
  "kv_count sr H W = (if 1 < sr then (H div sr) * (W div sr) else H * W)"

section \<open>Properties\<close>

subsection \<open>Results\<close>

lemma and_then_Inr [simp]: "and_then (Inr v) f = f v"
  by (simp add: and_then_def)

lemma and_then_Inl [simp]: "and_then (Inl e) f = Inl e"
  by (simp add: and_then_def)

subsection \<open>The dataset loader\<close>

lemma append_paths_eq:
  "append_paths r ei el fs (images, labels) =
     (images @ image_paths r ei fs, labels @ label_paths r el fs)"
  by (induction fs arbitrary: images labels) (simp_all add: image_paths_def label_paths_def)

text \<open>
  C10. When the nine directories can be listed, \<open>load_list\<close> returns the paths of the
  nine branches in order. For every file name listed in \<open>SRD_DC/train_A\<close> the image path
  ends in \<open>.png\<close> and the label path at the same position ends in \<open>.jpg\<close>, whereas the
  branches \<open>SRD_BM\<close>, \<open>SRD_DSC\<close> and \<open>SRD_TG\<close> use \<open>.jpg\<close> for both.
\<close>

theorem load_list_SRD_DC:
  assumes "listdir (data_root @ ''ISTD_SP'' @ ''/train_A/'') = Inr f1"
      and "listdir (data_root @ ''ISTD_DSC'' @ ''/train_A/'') = Inr f2"
      and "listdir (data_root @ ''ISTD_DC'' @ ''/train_A/'') = Inr f3"
      and "listdir (data_root @ ''ISTD_BM'' @ ''/train_A/'') = Inr f4"
      and "listdir (data_root @ ''ISTD_TG'' @ ''/train_A/'') = Inr f5"
      and "listdir (data_root @ ''SRD_BM'' @ ''/train_A/'') = Inr f6"
      and "listdir (data_root @ ''SRD_DC'' @ ''/train_A/'') = Inr f7"
      and "listdir (data_root @ ''SRD_DSC'' @ ''/train_A/'') = Inr f8"
      and "listdir (data_root @ ''SRD_TG'' @ ''/train_A/'') = Inr f9"
  shows "load_list listdir dataset_name data_root =
           Inr (image_paths (data_root @ ''ISTD_SP'' @ ''/train_A/'') ''.png'' f1
                @ image_paths (data_root @ ''ISTD_DSC'' @ ''/train_A/'') ''.png'' f2
                @ image_paths (data_root @ ''ISTD_DC'' @ ''/train_A/'') ''.png'' f3
                @ image_paths (data_root @ ''ISTD_BM'' @ ''/train_A/'') ''.png'' f4
                @ image_paths (data_root @ ''ISTD_TG'' @ ''/train_A/'') ''.png'' f5
                @ image_paths (data_root @ ''SRD_BM'' @ ''/train_A/'') ''.jpg'' f6
                @ image_paths (data_root @ ''SRD_DC'' @ ''/train_A/'') ''.png'' f7
                @ image_paths (data_root @ ''SRD_DSC'' @ ''/train_A/'') ''.jpg'' f8
                @ image_paths (data_root @ ''SRD_TG'' @ ''/train_A/'') ''.jpg'' f9,
                label_paths (data_root @ ''ISTD_SP'' @ ''/train_A/'') ''.png'' f1
                @ label_paths (data_root @ ''ISTD_DSC'' @ ''/train_A/'') ''.png'' f2
                @ label_paths (data_root @ ''ISTD_DC'' @ ''/train_A/'') ''.png'' f3
                @ label_paths (data_root @ ''ISTD_BM'' @ ''/train_A/'') ''.png'' f4
                @ label_paths (data_root @ ''ISTD_TG'' @ ''/train_A/'') ''.png'' f5
                @ label_paths (data_root @ ''SRD_BM'' @ ''/train_A/'') ''.jpg'' f6
                @ label_paths (data_root @ ''SRD_DC'' @ ''/train_A/'') ''.jpg'' f7
                @ label_paths (data_root @ ''SRD_DSC'' @ ''/train_A/'') ''.jpg'' f8
                @ label_paths (data_root @ ''SRD_TG'' @ ''/train_A/'') ''.jpg'' f9)
         \<and> (\<forall>i < length f7.
               suffix ''.png'' (image_paths (data_root @ ''SRD_DC'' @ ''/train_A/'') ''.png'' f7 ! i)
             \<and> suffix ''.jpg'' (label_paths (data_root @ ''SRD_DC'' @ ''/train_A/'') ''.jpg'' f7 ! i))"
proof -
  have "\<forall>i < length f7.
               suffix ''.png'' (image_paths (data_root @ ''SRD_DC'' @ ''/train_A/'') ''.png'' f7 ! i)
             \<and> suffix ''.jpg'' (label_paths (data_root @ ''SRD_DC'' @ ''/train_A/'') ''.jpg'' f7 ! i)"
    unfolding image_paths_def label_paths_def
    by (simp add: suffix_def) 
  moreover have "load_list listdir dataset_name data_root = Inr (image_paths (data_root @ ''ISTD_SP'' @ ''/train_A/'') ''.png'' f1
                @ image_paths (data_root @ ''ISTD_DSC'' @ ''/train_A/'') ''.png'' f2
                @ image_paths (data_root @ ''ISTD_DC'' @ ''/train_A/'') ''.png'' f3
                @ image_paths (data_root @ ''ISTD_BM'' @ ''/train_A/'') ''.png'' f4
                @ image_paths (data_root @ ''ISTD_TG'' @ ''/train_A/'') ''.png'' f5
                @ image_paths (data_root @ ''SRD_BM'' @ ''/train_A/'') ''.jpg'' f6
                @ image_paths (data_root @ ''SRD_DC'' @ ''/train_A/'') ''.png'' f7
                @ image_paths (data_root @ ''SRD_DSC'' @ ''/train_A/'') ''.jpg'' f8
                @ image_paths (data_root @ ''SRD_TG'' @ ''/train_A/'') ''.jpg'' f9,
                label_paths (data_root @ ''ISTD_SP'' @ ''/train_A/'') ''.png'' f1
                @ label_paths (data_root @ ''ISTD_DSC'' @ ''/train_A/'') ''.png'' f2
                @ label_paths (data_root @ ''ISTD_DC'' @ ''/train_A/'') ''.png'' f3
                @ label_paths (data_root @ ''ISTD_BM'' @ ''/train_A/'') ''.png'' f4
                @ label_paths (data_root @ ''ISTD_TG'' @ ''/train_A/'') ''.png'' f5
                @ label_paths (data_root @ ''SRD_BM'' @ ''/train_A/'') ''.jpg'' f6
                @ label_paths (data_root @ ''SRD_DC'' @ ''/train_A/'') ''.jpg'' f7
                @ label_paths (data_root @ ''SRD_DSC'' @ ''/train_A/'') ''.jpg'' f8
                @ label_paths (data_root @ ''SRD_TG'' @ ''/train_A/'') ''.jpg'' f9)"
    unfolding load_list_def using assms
    by (simp add: branch_def append_paths_eq)
  ultimately show ?thesis by blast
qed


theorem load_list_SRD_DC_witness:
  "load_list (\<lambda>r. Inr (if r = ''d/SRD_DC/train_A/'' then [''0001.jpg''] else
                          if r = ''d/SRD_BM/train_A/'' then [''7.jpg''] else [])) ''SRD'' ''d/''
     = Inr ([''d/SRD_BM/train_A/7.jpg'', ''d/SRD_DC/train_A/0001.png''],
            [''d/SRD_BM/train_B/7.jpg'', ''d/SRD_DC/train_B/0001.jpg''])
   \<and> suffix ''.png'' ''d/SRD_DC/train_A/0001.png'' \<and> suffix ''.jpg'' ''d/SRD_DC/train_B/0001.jpg''"
  using load_list_SRD_DC [of "\<lambda>r. Inr (if r = ''d/SRD_DC/train_A/'' then [''0001.jpg''] else
                          if r = ''d/SRD_BM/train_A/'' then [''7.jpg''] else [])"
      "''d/''" "[]" "[]" "[]" "[]" "[]" "[''7.jpg'']" "[''0001.jpg'']" "[]" "[]" "''SRD''"]
  by (simp add: image_paths_def label_paths_def stem_def)

subsection \<open>Primitives\<close>

lemma shape_mk [simp]: "shape (mk K nm a ins sh) = sh"
  by (simp add: mk_def)

lemmas prim_defs = unpack3_def unpack4_def reshape_def infer_size_def known_size_def numel_def
  norm_dim_def transpose_def permute_def flatten_def broadcast_def add_def matmul_def softmax_def
  scale_by_def GELU_def Sigmoid_def cat_def Linear_forward_def LayerNorm_forward_def
  Conv2d_forward_def conv_out_def BatchNorm2d_forward_def Fold_forward_def n_blocks_def
  Sequential_forward_def Linear_init_def LayerNorm_init_def BatchNorm2d_init_def

lemma broadcast_rev_same [simp]: "broadcast_rev xs xs = Inr xs"
  by (induction xs) auto

lemma broadcast_same [simp]: "broadcast xs xs = Inr xs"
  by (simp add: broadcast_def)

lemma shape_tensor_of [simp]: "shape (tensor_of sh) = sh"
  by (simp add: tensor_of_def)

lemmas init_defs = PatchEmbed_init_def CrossAttention_init_def Conv2d_init_def floordiv_def
  head_scale_def to_2tuple_def

lemma and_then_neq: "m \<noteq> Inl e \<Longrightarrow> (\<And>v. f v \<noteq> Inl e) \<Longrightarrow> and_then m f \<noteq> Inl e"
  by (cases m) auto

lemma and_then_eq_Inl: "(and_then m f = Inl e) = (m = Inl e \<or> (\<exists>v. m = Inr v \<and> f v = Inl e))"
  by (cases m) auto

lemma and_then_eq_Inr: "(and_then m f = Inr y) = (\<exists>v. m = Inr v \<and> f v = Inr y)"
  by (cases m) auto

lemma broadcast_rev_no_assert: "broadcast_rev as bs \<noteq> Inl AssertionError"
  by (induction as bs rule: broadcast_rev.induct) (auto simp: and_then_eq_Inl)

lemma broadcast_no_assert: "broadcast as bs \<noteq> Inl AssertionError"
  unfolding broadcast_def by (intro and_then_neq broadcast_rev_no_assert) simp

lemma norm_dim_no_assert: "norm_dim d r \<noteq> Inl AssertionError"
  by (simp add: norm_dim_def)

lemma infer_size_no_assert: "infer_size t n \<noteq> Inl AssertionError"
  by (simp add: infer_size_def)

lemma Linear_no_assert: "Linear_forward K l x \<noteq> Inl AssertionError"
  by (simp add: Linear_forward_def)

lemma prims_no_assert [simp]:
  "unpack3 x \<noteq> Inl AssertionError"
  "unpack4 x \<noteq> Inl AssertionError"
  "reshape K t x \<noteq> Inl AssertionError"
  "transpose K d0 d1 x \<noteq> Inl AssertionError"
  "permute K ds x \<noteq> Inl AssertionError"
  "flatten K s x \<noteq> Inl AssertionError"
  "add K x y \<noteq> Inl AssertionError"
  "matmul K x y \<noteq> Inl AssertionError"
  "softmax K d x \<noteq> Inl AssertionError"
  "cat K x yo n \<noteq> Inl AssertionError"
  "Linear_forward K l x \<noteq> Inl AssertionError"
  "LayerNorm_forward K ln x \<noteq> Inl AssertionError"
  "Conv2d_forward K c x \<noteq> Inl AssertionError"
  "Fold_forward K f x \<noteq> Inl AssertionError"
  "Sequential_forward K sq x \<noteq> Inl AssertionError"
proof -
  show "unpack3 x \<noteq> Inl AssertionError" by (simp add: unpack3_def split: list.splits)
  show "unpack4 x \<noteq> Inl AssertionError" by (simp add: unpack4_def split: list.splits)
  show "reshape K t x \<noteq> Inl AssertionError"
    unfolding reshape_def by (intro and_then_neq infer_size_no_assert) simp
  show "transpose K d0 d1 x \<noteq> Inl AssertionError"
    unfolding transpose_def by (intro and_then_neq norm_dim_no_assert) simp
  show "permute K ds x \<noteq> Inl AssertionError" by (simp add: permute_def)
  show "flatten K s x \<noteq> Inl AssertionError" by (simp add: flatten_def)
  show "add K x y \<noteq> Inl AssertionError"
    unfolding add_def by (intro and_then_neq broadcast_no_assert) simp
  show "matmul K x y \<noteq> Inl AssertionError"
    by (simp add: matmul_def Let_def and_then_eq_Inl broadcast_no_assert)
  show "softmax K d x \<noteq> Inl AssertionError"
    unfolding softmax_def by (intro and_then_neq norm_dim_no_assert) simp
  show "cat K x yo n \<noteq> Inl AssertionError" by (simp add: cat_def split: option.splits)
  show "Linear_forward K l x \<noteq> Inl AssertionError" by (rule Linear_no_assert)
  show "LayerNorm_forward K ln x \<noteq> Inl AssertionError" by (simp add: LayerNorm_forward_def)
  show "Conv2d_forward K c x \<noteq> Inl AssertionError"
    by (simp add: Conv2d_forward_def split: list.splits)
  show "Fold_forward K f x \<noteq> Inl AssertionError"
    by (simp add: Fold_forward_def Let_def split: list.splits)
  show "Sequential_forward K sq x \<noteq> Inl AssertionError"
    unfolding Sequential_forward_def by (intro and_then_neq Linear_no_assert)
qed

subsection \<open>CrossAttention\<close>

lemma CrossAttention_init_Inr:
  "CrossAttention_init nm dim1 dim2 dim h qs = Inr m \<Longrightarrow>
     0 < h \<and> (qs \<or> 0 < dim div h) \<and>
     m = \<lparr>ca_key = nm, ca_num_heads = h, ca_dim = dim, ca_dim1 = dim1, ca_dim2 = dim2,
            ca_q1 = Linear_init (nm @ ''.q1'') dim1 dim,
            ca_proj = Linear_init (nm @ ''.proj'') dim dim1,
            ca_k2 = Linear_init (nm @ ''.k2'') dim2 dim,
            ca_v2 = Linear_init (nm @ ''.v2'') dim2 dim\<rparr>"
  by (auto simp: CrossAttention_init_def floordiv_def head_scale_def split: if_splits)

lemma CrossAttention_forward_ok:
  assumes init: "CrossAttention_init nm dim1 dim2 dim h qs = Inr m"
      and dvd: "h dvd dim"
      and fea: "shape fea = [B, N1, dim1]"
      and dep: "shape depth_fea = [B, N2, dim2]"
  shows "\<exists>y. CrossAttention_forward K m fea depth_fea = Inr y \<and> shape y = [B, N1, dim1]"
proof -
  from CrossAttention_init_Inr[OF init] have h: "0 < h" and m: "m = \<lparr>ca_key = nm, ca_num_heads = h, ca_dim = dim, ca_dim1 = dim1, ca_dim2 = dim2,
            ca_q1 = Linear_init (nm @ ''.q1'') dim1 dim,
            ca_proj = Linear_init (nm @ ''.proj'') dim dim1,
            ca_k2 = Linear_init (nm @ ''.k2'') dim2 dim,
            ca_v2 = Linear_init (nm @ ''.v2'') dim2 dim\<rparr>" by auto
  have d: "h * (dim div h) = dim" using dvd by simp
  show ?thesis
    unfolding CrossAttention_forward_def m
    by (simp add: prim_defs fea dep d Let_def)
qed


lemma CrossAttention_no_assert: "CrossAttention_forward K m fea depth_fea \<noteq> Inl AssertionError"
  unfolding CrossAttention_forward_def Let_def
  by (intro and_then_neq prims_no_assert | simp only: split_paired_all case_prod_conv)+

text \<open>
  C4, as stated, fails: the constructor accepts a width \<open>dim\<close> that is not a multiple of
  \<open>num_heads\<close> (here 6 and 4), and then \<open>forward\<close> raises at the reshape of the queries
  into heads, for inputs of the shapes the claim describes.
\<close>

theorem CrossAttention_heads_counterexample:
  "CrossAttention_init ''interact'' 1 1 6 4 False =
     Inr \<lparr>ca_key = ''interact'', ca_num_heads = 4, ca_dim = 6, ca_dim1 = 1, ca_dim2 = 1,
          ca_q1 = Linear_init ''interact.q1'' 1 6, ca_proj = Linear_init ''interact.proj'' 6 1,
          ca_k2 = Linear_init ''interact.k2'' 1 6, ca_v2 = Linear_init ''interact.v2'' 1 6\<rparr>
   \<and> CrossAttention_forward unit_kernel
        \<lparr>ca_key = ''interact'', ca_num_heads = 4, ca_dim = 6, ca_dim1 = 1, ca_dim2 = 1,
          ca_q1 = Linear_init ''interact.q1'' 1 6, ca_proj = Linear_init ''interact.proj'' 6 1,
          ca_k2 = Linear_init ''interact.k2'' 1 6, ca_v2 = Linear_init ''interact.v2'' 1 6\<rparr>
        (tensor_of [1, 1, 1]) (tensor_of [1, 1, 1]) = Inl RuntimeError"
  by (simp add: CrossAttention_init_def floordiv_def head_scale_def CrossAttention_forward_def
        prim_defs Let_def)

text \<open>
  C4, amended. For every CrossAttention whose \<open>dim\<close> is a multiple of \<open>num_heads\<close>, and
  every pair of inputs \<open>fea\<close> of shape \<open>(B, N1, dim1)\<close> and \<open>depth_fea\<close> of shape
  \<open>(B, N2, dim2)\<close> with the same batch size and arbitrary token counts, \<open>forward\<close>
  returns a tensor of shape \<open>(B, N1, dim1)\<close>.
\<close>

theorem CrossAttention_forward_shape:
  assumes "CrossAttention_init nm dim1 dim2 dim h qs = Inr m"
      and "h dvd dim"
      and "shape fea = [B, N1, dim1]"
      and "shape depth_fea = [B, N2, dim2]"
  shows "\<exists>y. CrossAttention_forward K m fea depth_fea = Inr y \<and> shape y = [B, N1, dim1]"
  using assms by (rule CrossAttention_forward_ok)

theorem CrossAttention_forward_shape_witness:
  "\<exists>y. CrossAttention_forward unit_kernel
        \<lparr>ca_key = ''interact'', ca_num_heads = 4, ca_dim = 8, ca_dim1 = 3, ca_dim2 = 5,
          ca_q1 = Linear_init ''interact.q1'' 3 8, ca_proj = Linear_init ''interact.proj'' 8 3,
          ca_k2 = Linear_init ''interact.k2'' 5 8, ca_v2 = Linear_init ''interact.v2'' 5 8\<rparr>
        (tensor_of [2, 7, 3]) (tensor_of [2, 9, 5]) = Inr y \<and> shape y = [2, 7, 3]"
  using CrossAttention_forward_shape [of "''interact''" 3 5 8 4 False _ "tensor_of [2, 7, 3]" 2 7
      "tensor_of [2, 9, 5]" 9 unit_kernel]
  by (simp add: CrossAttention_init_def floordiv_def head_scale_def)

subsection \<open>PatchEmbed\<close>

lemma interact_no_assert:
  "(case i of None \<Rightarrow> Inl AttributeError | Some ca \<Rightarrow> CrossAttention_forward K ca x x0)
     \<noteq> Inl AssertionError"
  by (simp add: CrossAttention_no_assert split: option.splits)

text \<open>
  C2. For every PatchEmbed instance and every input of shape \<open>(B, C, H, W)\<close>, \<open>forward\<close>
  raises the assertion error exactly when \<open>H\<close> or \<open>W\<close> differs from the configured
  \<open>img_size\<close>, whatever the kernels, the weights and the skip feature are: the check comes
  before any tensor computation, and nothing after it raises this error.
\<close>

theorem PatchEmbed_forward_assert:
  assumes "shape x = [B, C, H, W]"
  shows "(PatchEmbed_forward K m x enc_fea = Inl AssertionError)
           = (H \<noteq> fst (pe_img_size m) \<or> W \<noteq> snd (pe_img_size m))"
proof (cases "H = fst (pe_img_size m) \<and> W = snd (pe_img_size m)")
  case False
  then show ?thesis
    by (auto simp: PatchEmbed_forward_def unpack4_def assms)
next
  case True
  then have hw: "fst (pe_img_size m) = H" "snd (pe_img_size m) = W" by simp_all
  have "PatchEmbed_forward K m x enc_fea \<noteq> Inl AssertionError"
    unfolding PatchEmbed_forward_def Let_def
    apply (simp add: unpack4_def assms hw)
    apply (intro and_then_neq prims_no_assert)
    apply (split if_split)
    apply (intro conjI impI and_then_neq prims_no_assert interact_no_assert)
    apply simp_all
    done
  with True show ?thesis by simp
qed

theorem PatchEmbed_forward_assert_witness:
  "PatchEmbed_forward unit_kernel (projr (PatchEmbed_init ''stage'' 2 2 1 1 3 2 1 False))
     (tensor_of [1, 1, 3, 2]) None = Inl AssertionError
   \<and> PatchEmbed_forward unit_kernel (projr (PatchEmbed_init ''stage'' 2 2 1 1 3 2 1 False))
     (tensor_of [1, 1, 2, 2]) None \<noteq> Inl AssertionError"
  using PatchEmbed_forward_assert [of "tensor_of [1, 1, 3, 2]" 1 1 3 2 unit_kernel
          "projr (PatchEmbed_init ''stage'' 2 2 1 1 3 2 1 False)" None]
        PatchEmbed_forward_assert [of "tensor_of [1, 1, 2, 2]" 1 1 2 2 unit_kernel
          "projr (PatchEmbed_init ''stage'' 2 2 1 1 3 2 1 False)" None]
  by (simp add: init_defs Let_def)

text \<open>
  C5. For every PatchEmbed with \<open>fuse\<close> disabled, the result of \<open>forward\<close> (the tensor
  with its contents, the new spatial dimensions, or the error) is the same for all values
  of the skip feature, \<open>None\<close> included.
\<close>

theorem PatchEmbed_forward_no_fuse:
  "\<not> pe_fuse m \<Longrightarrow> PatchEmbed_forward K m x enc_fea = PatchEmbed_forward K m x enc_fea'"
  by (simp add: PatchEmbed_forward_def Let_def split_def cong: if_cong)


theorem PatchEmbed_forward_no_fuse_witness:
  "PatchEmbed_forward unit_kernel (projr (PatchEmbed_init ''stage'' 2 2 1 1 3 2 1 False))
     (tensor_of [1, 1, 2, 2]) None
   = PatchEmbed_forward unit_kernel (projr (PatchEmbed_init ''stage'' 2 2 1 1 3 2 1 False))
     (tensor_of [1, 1, 2, 2]) (Some (tensor_of [5, 7]))
   \<and> PatchEmbed_forward unit_kernel (projr (PatchEmbed_init ''stage'' 2 2 1 1 3 2 1 False))
     (tensor_of [1, 1, 2, 2]) (Some (tensor_of [5, 7])) = Inr (tensor_of [1, 16, 1], (4, 4))"
  using PatchEmbed_forward_no_fuse [of "projr (PatchEmbed_init ''stage'' 2 2 1 1 3 2 1 False)"
          unit_kernel "tensor_of [1, 1, 2, 2]" None "Some (tensor_of [5, 7])"]
  by (simp add: init_defs Let_def PatchEmbed_forward_def prim_defs mk_def tensor_of_def unit_kernel_def)

lemma and_then_assoc: "and_then (and_then m f) g = and_then m (\<lambda>v. and_then (f v) g)"
  by (cases m) auto

lemma and_then_return: "and_then m Inr = m"
  by (cases m) auto

lemma and_then_if:
  "and_then (if c then a else b) g = (if c then and_then a g else and_then b g)"
  by simp

lemma PatchEmbed_forward_phases:
  assumes "shape x = [B, C, H, W]"
  shows "PatchEmbed_forward K m x enc_fea =
           (if \<not> (H = fst (pe_img_size m) \<and> W = snd (pe_img_size m)) then Inl AssertionError
            else and_then (pe_tokens K m x) (\<lambda>t.
                 and_then (if pe_fuse m then pe_fused K m t enc_fea else pe_plain K m t) (\<lambda>y.
                 Inr (y, (H * fst (pe_patch_size m), W * snd (pe_patch_size m))))))"
  by (simp add: PatchEmbed_forward_def pe_tokens_def pe_fused_def pe_plain_def unpack4_def assms
        and_then_assoc and_then_if Let_def cong: if_cong)


lemma PatchEmbed_init_Inr:
  assumes "PatchEmbed_init nm ms ps inc E k s p fuse = Inr m"
  shows "pe_img_size m = (ms, ms)" "pe_patch_size m = (ps, ps)"
    "pe_num_patches m = (ms * ps) * (ms * ps)"
    "pe_project m = Linear_init (nm @ ''.project'') inc (inc * k * k)"
    "pe_upsample m = \<lparr>output_size = (ms * s, ms * s), fd_kernel_size = (k, k),
                       fd_stride = (s, s), fd_padding = (p, p)\<rparr>"
    "pe_norm m = LayerNorm_init (nm @ ''.norm'') inc"
    "pe_norm2 m = LayerNorm_init (nm @ ''.norm2'') E"
    "pe_norm3 m = LayerNorm_init (nm @ ''.norm3'') E"
    "pe_lpu m = \<lparr>cv_key = nm @ ''.lpu'', in_channels = inc, out_channels = inc,
                  cv_kernel_size = 3, cv_stride = 1, cv_padding = 1, groups = 1\<rparr>"
    "pe_fuse m = fuse"
    "pe_concatFuse m =
       \<lparr>seq_0 = Linear_init (nm @ ''.concatFuse.0'') (if fuse then inc + E else inc) inc,
        seq_2 = Linear_init (nm @ ''.concatFuse.2'') inc E\<rparr>"
    "pe_interact m = (if fuse then Some (projr (CrossAttention_init (nm @ ''.interact'') E inc E 4 False)) else None)"
    "fuse \<Longrightarrow> 0 < E div 4"
    "fuse \<Longrightarrow> \<exists>ca. CrossAttention_init (nm @ ''.interact'') E inc E 4 False = Inr ca"
  using assms
  by (auto simp: init_defs Let_def and_then_eq_Inr split: if_splits)

lemma kk_div [simp]: "0 < k \<Longrightarrow> a * k * k div (k * k) = (a::nat)"
  by (simp add: mult.assoc)

lemma kk_mod [simp]: "a * k * k mod (k * k) = (0::nat)"
  by (simp add: mult.assoc)

lemma pe_tokens_ok:
  assumes init: "PatchEmbed_init nm ms ps inc E k s p fuse = Inr m"
      and x: "shape x = [B, inc, H, W]"
      and pos: "0 < k" "0 < s" "0 < inc" "0 < ms"
      and geo: "int (H * W) = n_blocks (ms * s) k s p * n_blocks (ms * s) k s p"
               "1 \<le> n_blocks (ms * s) k s p" 
  shows "\<exists>t. pe_tokens K m x = Inr t \<and> shape t = [B, (ms * s) * (ms * s), inc]"
proof -
  have hw: "H * W \<noteq> 0" using geo by (cases "H * W = 0") auto
  show ?thesis
    unfolding pe_tokens_def
    using pos geo hw
    by (simp add: PatchEmbed_init_Inr[OF init] prim_defs x Let_def)
qed

lemma pe_tokens_Inr:
  assumes init: "PatchEmbed_init nm ms ps inc E k s p fuse = Inr m"
      and x: "shape x = [B, C, H, W]"
      and t: "pe_tokens K m x = Inr t"
  shows "C = inc \<and> shape t = [B, (ms * s) * (ms * s), inc] \<and> 0 < k \<and> 0 < s \<and> 0 < inc
         \<and> 0 < ms \<and> int (H * W) = n_blocks (ms * s) k s p * n_blocks (ms * s) k s p
         \<and> 1 \<le> n_blocks (ms * s) k s p"
  using t unfolding pe_tokens_def
  by (auto simp: PatchEmbed_init_Inr[OF init] prim_defs x Let_def and_then_eq_Inr
         split: if_splits)


lemma CrossAttention_forward_Inr:
  assumes init: "CrossAttention_init nm dim1 dim2 dim h qs = Inr m"
      and fea: "shape fea = [B1, N1, d1]"
      and dep: "shape depth_fea = [B, N, d2]"
      and y: "CrossAttention_forward K m fea depth_fea = Inr y"
  shows "shape y = [B, N1, dim1]"
proof -
  from CrossAttention_init_Inr[OF init] have m: "ca_dim m = dim" "ca_proj m = Linear_init (nm @ ''.proj'') dim dim1"
    by auto
  show ?thesis
    using y unfolding CrossAttention_forward_def
    by (auto simp: m unpack3_def fea dep Let_def and_then_eq_Inr reshape_def infer_size_def
          known_size_def Linear_forward_def Linear_init_def split: if_splits)
qed

lemma pe_plain_ok:
  assumes init: "PatchEmbed_init nm ms ps inc E k s p False = Inr m"
      and t: "shape t = [B, N, inc]"
  shows "\<exists>y. pe_plain K m t = Inr y \<and> shape y = [B, N, E]"
  unfolding pe_plain_def
  by (simp add: PatchEmbed_init_Inr[OF init] prim_defs t)

lemma pe_plain_Inr:
  assumes init: "PatchEmbed_init nm ms ps inc E k s p False = Inr m"
      and t: "shape t = [B, N, inc]"
      and y: "pe_plain K m t = Inr y"
  shows "shape y = [B, N, E]"
  using y unfolding pe_plain_def
  by (auto simp: PatchEmbed_init_Inr[OF init] prim_defs t and_then_eq_Inr split: if_splits)

lemma pe_fused_ok:
  assumes init: "PatchEmbed_init nm ms ps inc E k s p True = Inr m"
      and t: "shape t = [B, N, inc]"
      and e: "shape e = [B, N, E]"
      and dvd: "4 dvd E"
  shows "\<exists>y. pe_fused K m t (Some e) = Inr y \<and> shape y = [B, N, E]"
proof -
  from PatchEmbed_init_Inr(14)[OF init] obtain ca
    where ca: "CrossAttention_init (nm @ ''.interact'') E inc E 4 False = Inr ca" by auto
  have E: "0 < E" using PatchEmbed_init_Inr(13)[OF init] by (cases E) auto
  note f = PatchEmbed_init_Inr[OF init]
  have "\<exists>c. cat K t (Some e) 2 = Inr c \<and> shape c = [B, N, inc + E]"
    using E by (simp add: prim_defs t e)
  then obtain c where c: "cat K t (Some e) 2 = Inr c" "shape c = [B, N, inc + E]" by auto
  have "\<exists>v. Sequential_forward K (pe_concatFuse m) c = Inr v \<and> shape v = [B, N, E]"
    by (simp add: f prim_defs c)
  then obtain s2 where s2: "Sequential_forward K (pe_concatFuse m) c = Inr s2" "shape s2 = [B, N, E]"
    by auto
  have "\<exists>v. LayerNorm_forward K (pe_norm2 m) s2 = Inr v \<and> shape v = [B, N, E]"
    by (simp add: f prim_defs s2)
  then obtain n2 where n2: "LayerNorm_forward K (pe_norm2 m) s2 = Inr n2" "shape n2 = [B, N, E]"
    by auto
  from CrossAttention_forward_ok[OF ca dvd n2(2) t, of K] obtain i
    where i: "CrossAttention_forward K ca n2 t = Inr i" "shape i = [B, N, E]" by auto
  have "\<exists>v. add K n2 i = Inr v \<and> shape v = [B, N, E]"
    by (simp add: add_def n2 i)
  then obtain a where a: "add K n2 i = Inr a" "shape a = [B, N, E]" by auto
  have "\<exists>v. LayerNorm_forward K (pe_norm3 m) a = Inr v \<and> shape v = [B, N, E]"
    by (simp add: f prim_defs a)
  then obtain y where y: "LayerNorm_forward K (pe_norm3 m) a = Inr y" "shape y = [B, N, E]"
    by auto
  show ?thesis
    unfolding pe_fused_def
    by (simp add: c s2 n2 i a y f(12) ca)
qed

lemma pe_fused_Inr:
  assumes init: "PatchEmbed_init nm ms ps inc E k s p True = Inr m"
      and t: "shape t = [B, N, inc]"
      and y: "pe_fused K m t enc_fea = Inr y"
  shows "(\<exists>e. enc_fea = Some e \<and> shape e = [B, N, E]) \<and> shape y = [B, N, E]"
proof -
  from PatchEmbed_init_Inr(14)[OF init] obtain ca
    where ca: "CrossAttention_init (nm @ ''.interact'') E inc E 4 False = Inr ca" by auto
  have E: "0 < E" using PatchEmbed_init_Inr(13)[OF init] by (cases E) auto
  from y obtain c s2 n2 i a where
      c: "cat K t enc_fea 2 = Inr c"
  and s2: "Sequential_forward K (pe_concatFuse m) c = Inr s2"
  and n2: "LayerNorm_forward K (pe_norm2 m) s2 = Inr n2"
  and i: "CrossAttention_forward K ca n2 t = Inr i"
  and a: "add K n2 i = Inr a"
  and y': "LayerNorm_forward K (pe_norm3 m) a = Inr y"
    unfolding pe_fused_def
    by (auto simp: and_then_eq_Inr PatchEmbed_init_Inr(12)[OF init] ca)
  from s2 have sc: "shape c \<noteq> [] \<and> last (shape c) = inc + E" and ss2: "shape s2 = butlast (shape c) @ [E]"
    by (auto simp: PatchEmbed_init_Inr[OF init] prim_defs and_then_eq_Inr split: if_splits)
  from c sc E have enc: "\<exists>e. enc_fea = Some e \<and> shape e = [B, N, E]" and shc: "shape c = [B, N, inc + E]"
    by (auto simp: cat_def t split: option.splits if_splits list.splits)
        (auto simp: list_update_code length_Suc_conv nth_Cons' split: if_splits)
  from n2 ss2 shc have sn2: "shape n2 = [B, N, E]"
    by (auto simp: prim_defs split: if_splits)
  from CrossAttention_forward_Inr[OF ca sn2 t i] have si: "shape i = [B, N, E]" .
  from a sn2 si have "shape a = [B, N, E]"
    by (auto simp: add_def and_then_eq_Inr)
  with y' have "shape y = [B, N, E]"
    by (auto simp: prim_defs split: if_splits)
  with enc show ?thesis by simp
qed


lemma PatchEmbed_forward_Inr:
  assumes init: "PatchEmbed_init nm ms ps inc E k s p fuse = Inr m"
      and x: "shape x = [B, C, H, W]"
      and r: "PatchEmbed_forward K m x enc_fea = Inr (y, hw)"
  shows "H = ms" "W = ms" "C = inc" "shape y = [B, (ms * s) * (ms * s), E]"
        "hw = (H * ps, W * ps)"
        "fuse \<Longrightarrow> \<exists>e. enc_fea = Some e \<and> shape e = [B, (ms * s) * (ms * s), E]"
proof -
  note f = PatchEmbed_init_Inr[OF init]
  from r have hw: "H = ms \<and> W = ms"
    by (auto simp: PatchEmbed_forward_phases[OF x] f split: if_splits)
  from r hw obtain t y' where t: "pe_tokens K m x = Inr t"
    and y': "(if fuse then pe_fused K m t enc_fea else pe_plain K m t) = Inr y'"
    and res: "(y, hw) = (y', (H * ps, W * ps))"
    by (auto simp: PatchEmbed_forward_phases[OF x] f and_then_eq_Inr split: if_splits)
  from pe_tokens_Inr[OF init x t] have C: "C = inc" and st: "shape t = [B, (ms * s) * (ms * s), inc]"
    by auto
  show "H = ms" "W = ms" using hw by auto
  show "C = inc" by (rule C)
  show "hw = (H * ps, W * ps)" using res by simp
  show "shape y = [B, (ms * s) * (ms * s), E]"
  proof (cases fuse)
    case True
    with y' init have "pe_fused K m t enc_fea = Inr y'"
      and "PatchEmbed_init nm ms ps inc E k s p True = Inr m" by auto
    from pe_fused_Inr[OF this(2) st this(1)] res show ?thesis by simp
  next
    case False
    with y' init have "pe_plain K m t = Inr y'"
      and "PatchEmbed_init nm ms ps inc E k s p False = Inr m" by auto
    from pe_plain_Inr[OF this(2) st this(1)] res show ?thesis by simp
  qed
  show "\<exists>e. enc_fea = Some e \<and> shape e = [B, (ms * s) * (ms * s), E]" if fuse
  proof -
    from that y' init have "pe_fused K m t enc_fea = Inr y'"
      and "PatchEmbed_init nm ms ps inc E k s p True = Inr m" by auto
    from pe_fused_Inr[OF this(2) st this(1)] show ?thesis by simp
  qed
qed

lemma PatchEmbed_forward_ok:
  assumes init: "PatchEmbed_init nm ms ps inc E k s p fuse = Inr m"
      and x: "shape x = [B, inc, ms, ms]"
      and pos: "0 < k" "0 < s" "0 < inc" "0 < ms"
      and geo: "n_blocks (ms * s) k s p = int ms"
      and enc: "fuse \<Longrightarrow> \<exists>e. enc_fea = Some e \<and> shape e = [B, (ms * s) * (ms * s), E] \<and> 4 dvd E"
  shows "\<exists>y. PatchEmbed_forward K m x enc_fea = Inr (y, (ms * ps, ms * ps))
              \<and> shape y = [B, (ms * s) * (ms * s), E]"
proof -
  note f = PatchEmbed_init_Inr[OF init]
  have geo': "int (ms * ms) = n_blocks (ms * s) k s p * n_blocks (ms * s) k s p"
             "1 \<le> n_blocks (ms * s) k s p"
    using geo pos by auto
  from pe_tokens_ok[OF init x pos geo', of K] obtain t
    where t: "pe_tokens K m x = Inr t" "shape t = [B, (ms * s) * (ms * s), inc]" by auto
  have "\<exists>y. (if fuse then pe_fused K m t enc_fea else pe_plain K m t) = Inr y
             \<and> shape y = [B, (ms * s) * (ms * s), E]"
  proof (cases fuse)
    case True
    with enc obtain e where e: "enc_fea = Some e" "shape e = [B, (ms * s) * (ms * s), E]" "4 dvd E"
      by auto
    from True init have "PatchEmbed_init nm ms ps inc E k s p True = Inr m" by simp
    from pe_fused_ok[OF this t(2) e(2) e(3), of K] True e(1) show ?thesis by simp
  next
    case False
    with init have "PatchEmbed_init nm ms ps inc E k s p False = Inr m" by simp
    from pe_plain_ok[OF this t(2), of K] False show ?thesis by simp
  qed
  then obtain y where y: "(if fuse then pe_fused K m t enc_fea else pe_plain K m t) = Inr y"
     "shape y = [B, (ms * s) * (ms * s), E]" by auto
  show ?thesis
    by (simp add: PatchEmbed_forward_phases[OF x] f t y)
qed

text \<open>
  C3, as stated, fails: the token count of the output is fixed by the stride of the fold
  and not by \<open>patch_size\<close>. With \<open>patch_size = 16\<close> and \<open>stride = 2\<close> (the defaults of
  the constructor) on a \<open>2 \<times> 2\<close> input, the output has 16 tokens, while the returned
  spatial dimensions are \<open>(32, 32)\<close>; 16 is neither \<open>32 * 32\<close> nor \<open>(2 * 2) * 16\<close>.
\<close>

theorem PatchEmbed_stride_counterexample:
  "PatchEmbed_forward unit_kernel (projr (PatchEmbed_init ''stage'' 2 16 1 1 3 2 1 False))
     (tensor_of [1, 1, 2, 2]) None = Inr (tensor_of [1, 16, 1], (32, 32))
   \<and> (16::nat) \<noteq> 32 * 32 \<and> (16::nat) \<noteq> (2 * 2) * 16"
  by (simp add: init_defs Let_def PatchEmbed_forward_def prim_defs mk_def tensor_of_def unit_kernel_def)

text \<open>
  C3, amended. For every constructed PatchEmbed and every input of shape \<open>(B, C, H, W)\<close>
  on which \<open>forward\<close> returns, \<open>H = W = img_size\<close>, the output tokens have shape
  \<open>(B, (img_size * stride)\<^sup>2, embed_dim)\<close> and the returned spatial dimensions are
  \<open>(H * patch_size, W * patch_size)\<close>; the token count is the product of the returned
  dimensions when \<open>stride = patch_size\<close>. And \<open>forward\<close> does return on an input of
  shape \<open>(B, in_chans, img_size, img_size)\<close> when the sizes are positive, the fold yields
  \<open>img_size\<close> blocks per side and, with \<open>fuse\<close>, the skip feature has shape
  \<open>(B, (img_size * stride)\<^sup>2, embed_dim)\<close> with \<open>embed_dim\<close> a multiple of the four heads.
\<close>

theorem PatchEmbed_forward_shape:
  assumes "PatchEmbed_init nm img_size patch_size in_chans embed_dim kernel_size stride padding fuse = Inr m"
      and "shape x = [B, C, H, W]"
  shows "(PatchEmbed_forward K m x enc_fea = Inr (y, hw) \<longrightarrow>
            H = img_size \<and> W = img_size
          \<and> shape y = [B, (img_size * stride) * (img_size * stride), embed_dim]
          \<and> hw = (H * patch_size, W * patch_size)
          \<and> (stride = patch_size \<longrightarrow> (img_size * stride) * (img_size * stride) = fst hw * snd hw))
       \<and> (C = in_chans \<and> H = img_size \<and> W = img_size
            \<and> 0 < kernel_size \<and> 0 < stride \<and> 0 < in_chans \<and> 0 < img_size
            \<and> n_blocks (img_size * stride) kernel_size stride padding = int img_size
            \<and> (fuse \<longrightarrow> (\<exists>e. enc_fea = Some e
                   \<and> shape e = [B, (img_size * stride) * (img_size * stride), embed_dim]
                   \<and> 4 dvd embed_dim))
          \<longrightarrow> (\<exists>z. PatchEmbed_forward K m x enc_fea = Inr (z, (H * patch_size, W * patch_size))
                  \<and> shape z = [B, (img_size * stride) * (img_size * stride), embed_dim]))"
proof (rule conjI)
  show "PatchEmbed_forward K m x enc_fea = Inr (y, hw) \<longrightarrow>
            H = img_size \<and> W = img_size
          \<and> shape y = [B, (img_size * stride) * (img_size * stride), embed_dim]
          \<and> hw = (H * patch_size, W * patch_size)
          \<and> (stride = patch_size \<longrightarrow> (img_size * stride) * (img_size * stride) = fst hw * snd hw)"
  proof (rule impI)
    assume r: "PatchEmbed_forward K m x enc_fea = Inr (y, hw)"
    from PatchEmbed_forward_Inr(1,2,4,5)[OF assms r]
    show "H = img_size \<and> W = img_size
          \<and> shape y = [B, (img_size * stride) * (img_size * stride), embed_dim]
          \<and> hw = (H * patch_size, W * patch_size)
          \<and> (stride = patch_size \<longrightarrow> (img_size * stride) * (img_size * stride) = fst hw * snd hw)"
      by auto
  qed
next
  show "C = in_chans \<and> H = img_size \<and> W = img_size
            \<and> 0 < kernel_size \<and> 0 < stride \<and> 0 < in_chans \<and> 0 < img_size
            \<and> n_blocks (img_size * stride) kernel_size stride padding = int img_size
            \<and> (fuse \<longrightarrow> (\<exists>e. enc_fea = Some e
                   \<and> shape e = [B, (img_size * stride) * (img_size * stride), embed_dim]
                   \<and> 4 dvd embed_dim))
          \<longrightarrow> (\<exists>z. PatchEmbed_forward K m x enc_fea = Inr (z, (H * patch_size, W * patch_size))
                  \<and> shape z = [B, (img_size * stride) * (img_size * stride), embed_dim])"
  proof (rule impI)
    assume v: "C = in_chans \<and> H = img_size \<and> W = img_size
            \<and> 0 < kernel_size \<and> 0 < stride \<and> 0 < in_chans \<and> 0 < img_size
            \<and> n_blocks (img_size * stride) kernel_size stride padding = int img_size
            \<and> (fuse \<longrightarrow> (\<exists>e. enc_fea = Some e
                   \<and> shape e = [B, (img_size * stride) * (img_size * stride), embed_dim]
                   \<and> 4 dvd embed_dim))"
    then have x: "shape x = [B, in_chans, img_size, img_size]" using assms(2) by simp
    from v PatchEmbed_forward_ok[OF assms(1) x, where K = K and enc_fea = enc_fea]
    show "\<exists>z. PatchEmbed_forward K m x enc_fea = Inr (z, (H * patch_size, W * patch_size))
                  \<and> shape z = [B, (img_size * stride) * (img_size * stride), embed_dim]"
      by auto
  qed
qed

theorem PatchEmbed_forward_shape_witness:
  "PatchEmbed_init ''stage'' 2 2 1 4 3 2 1 True = Inr (projr (PatchEmbed_init ''stage'' 2 2 1 4 3 2 1 True))
   \<and> PatchEmbed_forward unit_kernel (projr (PatchEmbed_init ''stage'' 2 2 1 4 3 2 1 True))
        (tensor_of [1, 1, 2, 2]) (Some (tensor_of [1, 16, 4])) = Inr (tensor_of [1, 16, 4], (4, 4))
   \<and> shape (tensor_of [1, 16, 4]) = [1, (2 * 2) * (2 * 2), 4]
   \<and> (4::nat, 4::nat) = (2 * 2, 2 * 2)"
proof -
  have i: "PatchEmbed_init ''stage'' 2 2 1 4 3 2 1 True = Inr (projr (PatchEmbed_init ''stage'' 2 2 1 4 3 2 1 True))"
    by (simp add: init_defs Let_def)
  have x: "shape (tensor_of [1, 1, 2, 2]) = [1, 1, 2, 2]" by simp
  have r: "PatchEmbed_forward unit_kernel (projr (PatchEmbed_init ''stage'' 2 2 1 4 3 2 1 True))
        (tensor_of [1, 1, 2, 2]) (Some (tensor_of [1, 16, 4])) = Inr (tensor_of [1, 16, 4], (4, 4))"
    by (simp add: init_defs Let_def PatchEmbed_forward_def CrossAttention_forward_def prim_defs
          mk_def tensor_of_def unit_kernel_def)
  from PatchEmbed_forward_shape[OF i x, where K = unit_kernel
         and enc_fea = "Some (tensor_of [1, 16, 4])" and y = "tensor_of [1, 16, 4]" and hw = "(4, 4)"] i r
  show ?thesis by simp
qed

text \<open>
  C9. For every PatchEmbed constructed with \<open>fuse\<close> enabled, \<open>forward\<close> returns only
  when the skip feature is a tensor of shape \<open>(B, (img_size * stride)\<^sup>2, embed_dim)\<close>: the
  token count of the upsampled tokens and the width \<open>embed_dim\<close>. Any other skip feature
  (another token count, another width, \<open>None\<close>) makes \<open>forward\<close> raise.
\<close>

theorem PatchEmbed_fuse_requires_enc:
  assumes "PatchEmbed_init nm img_size patch_size in_chans embed_dim kernel_size stride padding True = Inr m"
      and "shape x = [B, C, H, W]"
      and "PatchEmbed_forward K m x enc_fea = Inr r"
  shows "\<exists>e. enc_fea = Some e
             \<and> shape e = [B, (img_size * stride) * (img_size * stride), embed_dim]"
proof -
  obtain y hw where "r = (y, hw)" by (cases r)
  with assms(3) have "PatchEmbed_forward K m x enc_fea = Inr (y, hw)" by simp
  from PatchEmbed_forward_Inr(6)[OF assms(1,2) this] show ?thesis by simp
qed

theorem PatchEmbed_fuse_requires_enc_witness:
  "PatchEmbed_forward unit_kernel (projr (PatchEmbed_init ''stage'' 2 2 1 4 3 2 1 True))
        (tensor_of [1, 1, 2, 2]) (Some (tensor_of [1, 16, 4])) = Inr (tensor_of [1, 16, 4], (4, 4))
   \<and> PatchEmbed_forward unit_kernel (projr (PatchEmbed_init ''stage'' 2 2 1 4 3 2 1 True))
        (tensor_of [1, 1, 2, 2]) (Some (tensor_of [1, 15, 4])) = Inl RuntimeError
   \<and> PatchEmbed_forward unit_kernel (projr (PatchEmbed_init ''stage'' 2 2 1 4 3 2 1 True))
        (tensor_of [1, 1, 2, 2]) (Some (tensor_of [1, 16, 3])) = Inl RuntimeError
   \<and> shape (tensor_of [1, 16, 4]) = [1, (2 * 2) * (2 * 2), 4]"
proof -
  have i: "PatchEmbed_init ''stage'' 2 2 1 4 3 2 1 True = Inr (projr (PatchEmbed_init ''stage'' 2 2 1 4 3 2 1 True))"
    by (simp add: init_defs Let_def)
  have x: "shape (tensor_of [1, 1, 2, 2]) = [1, 1, 2, 2]" by simp
  have r: "PatchEmbed_forward unit_kernel (projr (PatchEmbed_init ''stage'' 2 2 1 4 3 2 1 True))
        (tensor_of [1, 1, 2, 2]) (Some (tensor_of [1, 16, 4])) = Inr (tensor_of [1, 16, 4], (4, 4))"
    by (simp add: init_defs Let_def PatchEmbed_forward_def CrossAttention_forward_def prim_defs
          mk_def tensor_of_def unit_kernel_def)
  have r2: "PatchEmbed_forward unit_kernel (projr (PatchEmbed_init ''stage'' 2 2 1 4 3 2 1 True))
        (tensor_of [1, 1, 2, 2]) (Some (tensor_of [1, 15, 4])) = Inl RuntimeError"
    by (simp add: init_defs Let_def PatchEmbed_forward_def CrossAttention_forward_def prim_defs
          mk_def tensor_of_def unit_kernel_def)
  have r3: "PatchEmbed_forward unit_kernel (projr (PatchEmbed_init ''stage'' 2 2 1 4 3 2 1 True))
        (tensor_of [1, 1, 2, 2]) (Some (tensor_of [1, 16, 3])) = Inl RuntimeError"
    by (simp add: init_defs Let_def PatchEmbed_forward_def CrossAttention_forward_def prim_defs
          mk_def tensor_of_def unit_kernel_def)
  from PatchEmbed_fuse_requires_enc[OF i x r] r r2 r3 show ?thesis by simp
qed

subsection \<open>The constructor of DecoderC\<close>

lemma DecoderC_init_Inr:
  assumes "DecoderC_init K img ed nh qs dp qr sr = Inr m"
  shows "\<exists>pb pc pd rc rd bc bd.
           3 < length ed \<and> 3 < length nh \<and> 3 < length sr \<and> 3 < length dp
         \<and> PatchEmbed_init ''patch_embed_b'' (img div 4) 4 (ed ! 2) (ed ! 3) 7 4 2 False = Inr pb
         \<and> PatchEmbed_init ''patch_embed_c'' (img div 8) 2 (ed ! 1) (ed ! 2) 3 2 1 True = Inr pc
         \<and> PatchEmbed_init ''patch_embed_d'' (img div 16) 2 (ed ! 0) (ed ! 1) 3 2 1 True = Inr pd
         \<and> relative_pos_init K ''relative_pos_c'' (nh ! 2) (pe_num_patches pc) (sr ! 2) = Inr rc
         \<and> relative_pos_init K ''relative_pos_d'' (nh ! 3) (pe_num_patches pd) (sr ! 3) = Inr rd
         \<and> collect (map (\<lambda>i. Block_init (''blocks_c.'' @ str i) (ed ! 2) (nh ! 2) qs qr (sr ! 2))
                      [0 ..< dp ! 2]) = Inr bc
         \<and> collect (map (\<lambda>i. Block_init (''blocks_d.'' @ str i) (ed ! 1) (nh ! 3) qs qr (sr ! 3))
                      [0 ..< dp ! 3]) = Inr bd
         \<and> m = \<lparr>dec_norm = LayerNorm_init ''norm'' (ed ! 0),
                 dec_mlp = \<lparr>seq_0 = Linear_init ''mlp.0'' (ed ! 0) (ed ! 0),
                            seq_2 = Linear_init ''mlp.2'' (ed ! 0) (ed ! 1)\<rparr>,
                 dec_img_size = img,
                 dec_patch_embed_b = pb, dec_patch_embed_c = pc, dec_patch_embed_d = pd,
                 dec_relative_pos_c = rc, dec_relative_pos_d = rd,
                 dec_pre_1_16 = Linear_init ''pre_1_16'' (ed ! 1) 1,
                 dec_pre_1_8 = Linear_init ''pre_1_8'' (ed ! 1) 1,
                 dec_pre_1_4 = Linear_init ''pre_1_4'' (ed ! 2) 1,
                 dec_pre_1_1 = Linear_init ''pre_1_1'' (ed ! 3) 1,
                 dec_blocks_c = bc, dec_blocks_d = bd\<rparr>"
  using assms unfolding DecoderC_init_def
  by (auto simp: and_then_eq_Inr index_def split: if_splits)

lemma relative_pos_init_Inr:
  "relative_pos_init K nm h n sr = Inr rp \<Longrightarrow> 0 < sr \<and> shape rp = [h, n, n div (sr * sr)]"
  by (auto simp: relative_pos_init_def and_then_eq_Inr floordiv_def div_mult2_eq split: if_splits)

lemma relative_pos_shapes:
  assumes "DecoderC_init K img_size embed_dims num_heads qk_scale_given depths qk_ratio sr_ratios = Inr m"
  shows "shape (dec_relative_pos_d m) =
           [num_heads ! 3, (2 * (img_size div 16)) * (2 * (img_size div 16)),
            (2 * (img_size div 16)) * (2 * (img_size div 16)) div (sr_ratios ! 3 * sr_ratios ! 3)]
       \<and> shape (dec_relative_pos_c m) =
           [num_heads ! 2, (2 * (img_size div 8)) * (2 * (img_size div 8)),
            (2 * (img_size div 8)) * (2 * (img_size div 8)) div (sr_ratios ! 2 * sr_ratios ! 2)]
       \<and> pe_num_patches (dec_patch_embed_d m) = (2 * (img_size div 16)) * (2 * (img_size div 16))
       \<and> pe_num_patches (dec_patch_embed_c m) = (2 * (img_size div 8)) * (2 * (img_size div 8))
       \<and> (16 dvd img_size \<longrightarrow>
            2 * (img_size div 16) = img_size div 8 \<and> 2 * (img_size div 8) = img_size div 4)"
proof -
  from DecoderC_init_Inr[OF assms] obtain pb pc pd rc rd where
        pc: "PatchEmbed_init ''patch_embed_c'' (img_size div 8) 2 (embed_dims ! 1) (embed_dims ! 2) 3 2 1 True = Inr pc"
    and pd: "PatchEmbed_init ''patch_embed_d'' (img_size div 16) 2 (embed_dims ! 0) (embed_dims ! 1) 3 2 1 True = Inr pd"
    and rc: "relative_pos_init K ''relative_pos_c'' (num_heads ! 2) (pe_num_patches pc) (sr_ratios ! 2) = Inr rc"
    and rd: "relative_pos_init K ''relative_pos_d'' (num_heads ! 3) (pe_num_patches pd) (sr_ratios ! 3) = Inr rd"
    and m: "dec_relative_pos_c m = rc" "dec_relative_pos_d m = rd"
           "dec_patch_embed_c m = pc" "dec_patch_embed_d m = pd"
    by auto
  have npc: "pe_num_patches pc = (2 * (img_size div 8)) * (2 * (img_size div 8))"
    using PatchEmbed_init_Inr(3)[OF pc] by (simp add: mult.commute)
  have npd: "pe_num_patches pd = (2 * (img_size div 16)) * (2 * (img_size div 16))"
    using PatchEmbed_init_Inr(3)[OF pd] by (simp add: mult.commute)
  have dv: "16 dvd img_size \<longrightarrow>
            2 * (img_size div 16) = img_size div 8 \<and> 2 * (img_size div 8) = img_size div 4"
    by (auto elim!: dvdE)
  from relative_pos_init_Inr[OF rc] relative_pos_init_Inr[OF rd] npc npd dv m
  show ?thesis by simp
qed


lemma collect_map_ok:
  assumes "\<And>i. \<exists>b. f i = Inr b"
  shows "\<exists>bs. collect (map f xs) = Inr bs \<and> (\<forall>b \<in> set bs. \<exists>i. f i = Inr b)"
proof (induction xs)
  case Nil
  show ?case by simp
next
  case (Cons x xs)
  from assms obtain b where b: "f x = Inr b" by blast
  from Cons obtain bs where bs: "collect (map f xs) = Inr bs" "\<forall>b \<in> set bs. \<exists>i. f i = Inr b"
    by blast
  show ?case using b bs by auto
qed

lemma collect_map_Inr:
  "collect (map f xs) = Inr bs \<Longrightarrow> \<forall>b \<in> set bs. \<exists>i. f i = Inr b"
  by (induction xs arbitrary: bs) (auto simp: and_then_eq_Inr)

lemma Block_init_ok:
  assumes "0 < h" "0 < qr" "0 < dim" "qs \<or> 0 < dim div h"
  shows "\<exists>b. Block_init nm dim h qs qr sr = Inr b"
  using assms
  by (auto simp: Block_init_def Attention_init_def Conv2d_init_def floordiv_def head_scale_def)

lemma PatchEmbed_init_ok:
  assumes "fuse \<Longrightarrow> 0 < E div 4"
  shows "\<exists>m. PatchEmbed_init nm ms ps inc E k s p fuse = Inr m"
  using assms by (auto simp: init_defs Let_def)

lemma DecoderC_init_ok:
  assumes len: "3 < length ed" "3 < length nh" "3 < length sr" "3 < length dp"
      and e: "0 < ed ! 1 div 4" "0 < ed ! 2 div 4"
      and s: "0 < sr ! 2" "0 < sr ! 3"
      and h: "0 < nh ! 2" "0 < nh ! 3" "0 < qr"
      and hd: "qs \<or> 0 < ed ! 2 div nh ! 2" "qs \<or> 0 < ed ! 1 div nh ! 3"
  shows "\<exists>m. DecoderC_init K img ed nh qs dp qr sr = Inr m"
proof -
  from PatchEmbed_init_ok[of False] obtain pb where
    pb: "PatchEmbed_init ''patch_embed_b'' (img div 4) 4 (ed ! 2) (ed ! 3) 7 4 2 False = Inr pb"
    by blast
  from PatchEmbed_init_ok[of True "ed ! 2"] e obtain pc where
    pc: "PatchEmbed_init ''patch_embed_c'' (img div 8) 2 (ed ! 1) (ed ! 2) 3 2 1 True = Inr pc"
    by blast
  from PatchEmbed_init_ok[of True "ed ! 1"] e obtain pd where
    pd: "PatchEmbed_init ''patch_embed_d'' (img div 16) 2 (ed ! 0) (ed ! 1) 3 2 1 True = Inr pd"
    by blast
  have e1: "0 < ed ! 1" "0 < ed ! 2" using e by (auto intro: Nat.gr0I)
  from collect_map_ok[of "\<lambda>i. Block_init (''blocks_c.'' @ str i) (ed ! 2) (nh ! 2) qs qr (sr ! 2)" "[0 ..< dp ! 2]"]
       Block_init_ok[OF h(1) h(3) e1(2) hd(1)]
  obtain bc where bc: "collect (map (\<lambda>i. Block_init (''blocks_c.'' @ str i) (ed ! 2) (nh ! 2) qs qr (sr ! 2))
                      [0 ..< dp ! 2]) = Inr bc" by blast
  from collect_map_ok[of "\<lambda>i. Block_init (''blocks_d.'' @ str i) (ed ! 1) (nh ! 3) qs qr (sr ! 3)" "[0 ..< dp ! 3]"]
       Block_init_ok[OF h(2) h(3) e1(1) hd(2)]
  obtain bd where bd: "collect (map (\<lambda>i. Block_init (''blocks_d.'' @ str i) (ed ! 1) (nh ! 3) qs qr (sr ! 3))
                      [0 ..< dp ! 3]) = Inr bd" by blast
  show ?thesis
    unfolding DecoderC_init_def
    using len s pb pc pd bc bd
    by (auto simp: index_def relative_pos_init_def floordiv_def)
qed

lemma DecoderC_default_ok: "\<exists>m. DecoderC_default K = Inr m"
  unfolding DecoderC_default_def
  by (rule DecoderC_init_ok) simp_all


subsection \<open>Attention and Block\<close>

lemma Attention_forward_phases:
  "Attention_forward K training m x H W relative_pos =
     and_then (Attention_logits K training m x H W) (\<lambda>(l, v).
     and_then (add K l relative_pos) (\<lambda>a. Attention_finish K m x a v))"
proof (cases "unpack3 x")
  case (Inl e)
  then show ?thesis by (simp add: Attention_forward_def Attention_logits_def)
next
  case (Inr t)
  obtain B N C where t: "t = (B, N, C)" by (cases t)
  show ?thesis
    by (simp add: Attention_forward_def Attention_logits_def Attention_finish_def Inr t
          and_then_assoc split_def)
qed

lemma reshape4_ok:
  assumes "prod_list (shape x) = a * b * c * d"
  shows "\<exists>y. reshape K [Some a, Some b, Some c, Some d] x = Inr y \<and> shape y = [a, b, c, d]"
  using assms by (simp add: reshape_def infer_size_def known_size_def numel_def mult.assoc)

lemma reshape3_ok:
  assumes "prod_list (shape x) = a * b * c"
  shows "\<exists>y. reshape K [Some a, Some b, Some c] x = Inr y \<and> shape y = [a, b, c]"
  using assms by (simp add: reshape_def infer_size_def known_size_def numel_def mult.assoc)

lemma reshape_last_ok:
  assumes "prod_list (shape x) = a * b * n" "0 < a * b"
  shows "\<exists>y. reshape K [Some a, Some b, None] x = Inr y \<and> shape y = [a, b, n]"
  using assms by (simp add: reshape_def infer_size_def known_size_def numel_def)

lemma reshape_second_ok:
  assumes "prod_list (shape x) = a * n * c * d" "0 < a * c * d"
  shows "\<exists>y. reshape K [Some a, None, Some c, Some d] x = Inr y \<and> shape y = [a, n, c, d]"
proof -
  have e: "a * n * c * d = n * (a * (c * d))" by (simp add: mult.assoc mult.left_commute)
  have p: "0 < a * (c * d)" using assms(2) by (simp add: mult.assoc)
  show ?thesis
    using p by (simp add: reshape_def infer_size_def known_size_def numel_def assms(1) e)
qed

lemma reshape_grid_ok:
  assumes "prod_list (shape x) = a * b * c * n" "0 < a * b * c"
  shows "\<exists>y. reshape K [Some a, Some b, Some c, None] x = Inr y \<and> shape y = [a, b, c, n]"
proof -
  have e: "a * b * c * n = n * (a * (b * c))" by (simp add: mult.assoc mult.left_commute)
  have p: "0 < a * (b * c)" using assms(2) by (simp add: mult.assoc)
  show ?thesis
    using p by (simp add: reshape_def infer_size_def known_size_def numel_def assms(1) e)
qed

lemma Linear_ok:
  assumes "shape x = sh @ [i]"
  shows "\<exists>y. Linear_forward K (Linear_init nm i out) x = Inr y \<and> shape y = sh @ [out]"
  using assms by (simp add: Linear_forward_def Linear_init_def)

lemma permute4_ok:
  assumes "shape x = [a, b, c, d]"
  shows "\<exists>y. permute K [0, 2, 1, 3] x = Inr y \<and> shape y = [a, c, b, d]"
  using assms by (simp add: permute_def)

lemma permute3_ok:
  assumes "shape x = [a, b, c]"
  shows "\<exists>y. permute K [0, 2, 1] x = Inr y \<and> shape y = [a, c, b]"
  using assms by (simp add: permute_def)

lemma transpose_last_ok:
  assumes "shape x = [a, b, c, d]"
  shows "\<exists>y. transpose K (- 2) (- 1) x = Inr y \<and> shape y = [a, b, d, c]"
  using assms by (simp add: transpose_def norm_dim_def)

lemma transpose12_4_ok:
  assumes "shape x = [a, b, c, d]"
  shows "\<exists>y. transpose K 1 2 x = Inr y \<and> shape y = [a, c, b, d]"
  using assms by (simp add: transpose_def norm_dim_def)

lemma transpose12_3_ok:
  assumes "shape x = [a, b, c]"
  shows "\<exists>y. transpose K 1 2 x = Inr y \<and> shape y = [a, c, b]"
  using assms by (simp add: transpose_def norm_dim_def)

lemma matmul4_ok:
  assumes "shape x = [a, b, n, k]" "shape y = [a, b, k, m]"
  shows "\<exists>z. matmul K x y = Inr z \<and> shape z = [a, b, n, m]"
  using assms by (simp add: matmul_def Let_def)

lemma softmax_ok:
  assumes "shape x = [a, b, c, d]"
  shows "\<exists>y. softmax K (- 1) x = Inr y \<and> shape y = [a, b, c, d]"
  using assms by (simp add: softmax_def norm_dim_def)

lemma add_same_ok:
  assumes "shape x = sh" "shape y = sh"
  shows "\<exists>z. add K x y = Inr z \<and> shape z = sh"
  using assms by (simp add: add_def)

lemma add_bias_ok:
  assumes "shape x = [a, b, c, d]" "shape y = [b, c, d]"
  shows "\<exists>z. add K x y = Inr z \<and> shape z = [a, b, c, d]"
  using assms by (simp add: add_def broadcast_def)


lemma Attention_init_Inr:
  assumes "Attention_init nm dim h qs qr sr = Inr m"
  shows "at_key m = nm" "at_num_heads m = h" "at_qk_dim m = dim div qr"
    "at_q m = Linear_init (nm @ ''.q'') dim (dim div qr)"
    "at_k m = Linear_init (nm @ ''.k'') dim (dim div qr)"
    "at_v m = Linear_init (nm @ ''.v'') dim dim"
    "at_proj m = Linear_init (nm @ ''.proj'') dim dim"
    "at_sr_ratio m = sr"
    "1 < sr \<Longrightarrow> at_sr m = Some (\<lparr>cv_key = nm @ ''.sr.0'', in_channels = dim, out_channels = dim,
        cv_kernel_size = sr, cv_stride = sr, cv_padding = 0, groups = dim\<rparr>,
        BatchNorm2d_init (nm @ ''.sr.1'') dim)"
    "1 < sr \<Longrightarrow> 0 < dim" "0 < h" "0 < qr"
  using assms
  by (auto simp: Attention_init_def Conv2d_init_def floordiv_def head_scale_def and_then_eq_Inr
        split: if_splits)

lemma Attention_kv_plain_ok:
  assumes init: "Attention_init nm dim h qs qr sr = Inr m"
      and sr: "\<not> 1 < sr"
      and x: "shape x = [B, N, dim]"
      and hq: "h dvd dim div qr" and hv: "h dvd dim"
  shows "\<exists>k v. Attention_kv K training m x B N dim H W = Inr (k, v)
           \<and> shape k = [B, h, N, dim div qr div h] \<and> shape v = [B, h, N, dim div h]"
proof -
  note f = Attention_init_Inr[OF init]
  have x': "shape x = [B, N] @ [dim]" using x by simp
  from Linear_ok[OF x', of K "nm @ ''.k''" "dim div qr"] obtain k0 where
    k0: "Linear_forward K (at_k m) x = Inr k0" "shape k0 = [B, N, dim div qr]" by (auto simp: f)
  have "prod_list (shape k0) = B * N * h * (dim div qr div h)" using hq by (simp add: k0 mult.assoc)
  from reshape4_ok[OF this, of K] obtain k1 where
    k1: "reshape K [Some B, Some N, Some h, Some (dim div qr div h)] k0 = Inr k1"
        "shape k1 = [B, N, h, dim div qr div h]" by auto
  from permute4_ok[OF k1(2), of K] obtain k where
    k: "permute K [0, 2, 1, 3] k1 = Inr k" "shape k = [B, h, N, dim div qr div h]" by auto
  from Linear_ok[OF x', of K "nm @ ''.v''" dim] obtain v0 where
    v0: "Linear_forward K (at_v m) x = Inr v0" "shape v0 = [B, N, dim]" by (auto simp: f)
  have "prod_list (shape v0) = B * N * h * (dim div h)" using hv by (simp add: v0 mult.assoc)
  from reshape4_ok[OF this, of K] obtain v1 where
    v1: "reshape K [Some B, Some N, Some h, Some (dim div h)] v0 = Inr v1"
        "shape v1 = [B, N, h, dim div h]" by auto
  from permute4_ok[OF v1(2), of K] obtain v where
    v: "permute K [0, 2, 1, 3] v1 = Inr v" "shape v = [B, h, N, dim div h]" by auto
  show ?thesis
    using sr k0 k1 k v0 v1 v by (simp add: Attention_kv_def Let_def f(2,3,8))
qed


lemma conv_sr_out: "0 < sr \<Longrightarrow> sr \<le> H \<Longrightarrow> Suc ((H - sr) div sr) = H div (sr::nat)"
  by (simp add: le_div_geq)

lemma Attention_kv_sr_ok:
  assumes init: "Attention_init nm dim h qs qr sr = Inr m"
      and sr: "1 < sr" "sr \<le> H" "sr \<le> W"
      and x: "shape x = [B, H * W, dim]"
      and hq: "h dvd dim div qr" and hv: "h dvd dim"
      and pos: "0 < B" "0 < dim div qr div h" "0 < dim div h"
      and bn: "training \<longrightarrow> B * ((H div sr) * (W div sr)) \<noteq> 1"
  shows "\<exists>k v. Attention_kv K training m x B (H * W) dim H W = Inr (k, v)
           \<and> shape k = [B, h, (H div sr) * (W div sr), dim div qr div h]
           \<and> shape v = [B, h, (H div sr) * (W div sr), dim div h]"
proof -
  note f = Attention_init_Inr[OF init]
  have dim: "0 < dim" using f(10) sr by simp
  have h: "0 < h" by (rule f(11))
  from permute3_ok[OF x, of K] obtain x1 where
    x1: "permute K [0, 2, 1] x = Inr x1" "shape x1 = [B, dim, H * W]" by auto
  have "prod_list (shape x1) = B * dim * H * W" by (simp add: x1 mult.assoc)
  from reshape4_ok[OF this, of K] obtain x2 where
    x2: "reshape K [Some B, Some dim, Some H, Some W] x1 = Inr x2" "shape x2 = [B, dim, H, W]"
    by auto
  have "\<exists>y. Conv2d_forward K \<lparr>cv_key = nm @ ''.sr.0'', in_channels = dim, out_channels = dim,
        cv_kernel_size = sr, cv_stride = sr, cv_padding = 0, groups = dim\<rparr> x2 = Inr y
        \<and> shape y = [B, dim, H div sr, W div sr]"
    using sr conv_sr_out[of sr H] conv_sr_out[of sr W]
    by (simp add: Conv2d_forward_def conv_out_def x2)
  then obtain x3 where
    x3: "Conv2d_forward K \<lparr>cv_key = nm @ ''.sr.0'', in_channels = dim, out_channels = dim,
        cv_kernel_size = sr, cv_stride = sr, cv_padding = 0, groups = dim\<rparr> x2 = Inr x3"
        "shape x3 = [B, dim, H div sr, W div sr]" by auto
  have "\<exists>y. BatchNorm2d_forward K training (BatchNorm2d_init (nm @ ''.sr.1'') dim) x3 = Inr y
        \<and> shape y = [B, dim, H div sr, W div sr]"
    using bn by (simp add: BatchNorm2d_forward_def BatchNorm2d_init_def x3)
  then obtain x4 where
    x4: "BatchNorm2d_forward K training (BatchNorm2d_init (nm @ ''.sr.1'') dim) x3 = Inr x4"
        "shape x4 = [B, dim, H div sr, W div sr]" by auto
  have "prod_list (shape x4) = B * dim * ((H div sr) * (W div sr))" by (simp add: x4 mult.assoc)
  moreover have "0 < B * dim" using pos dim by simp
  ultimately obtain x5 where
    x5: "reshape K [Some B, Some dim, None] x4 = Inr x5"
        "shape x5 = [B, dim, (H div sr) * (W div sr)]"
    using reshape_last_ok[of x4 B dim "(H div sr) * (W div sr)" K] by auto
  from permute3_ok[OF x5(2), of K] obtain xr where
    xr: "permute K [0, 2, 1] x5 = Inr xr" "shape xr = [B, (H div sr) * (W div sr), dim]" by auto
  have xr': "shape xr = [B, (H div sr) * (W div sr)] @ [dim]" using xr by simp
  from Linear_ok[OF xr', of K "nm @ ''.k''" "dim div qr"] obtain k0 where
    k0: "Linear_forward K (at_k m) xr = Inr k0" "shape k0 = [B, (H div sr) * (W div sr), dim div qr]"
    by (auto simp: f)
  have "prod_list (shape k0) = B * ((H div sr) * (W div sr)) * h * (dim div qr div h)"
    using hq by (simp add: k0 mult.assoc)
  moreover have "0 < B * h * (dim div qr div h)" using pos h by simp
  ultimately obtain k1 where
    k1: "reshape K [Some B, None, Some h, Some (dim div qr div h)] k0 = Inr k1"
        "shape k1 = [B, (H div sr) * (W div sr), h, dim div qr div h]"
    using reshape_second_ok[of k0 B "(H div sr) * (W div sr)" h "dim div qr div h" K] by auto
  from permute4_ok[OF k1(2), of K] obtain k where
    k: "permute K [0, 2, 1, 3] k1 = Inr k" "shape k = [B, h, (H div sr) * (W div sr), dim div qr div h]"
    by auto
  from Linear_ok[OF xr', of K "nm @ ''.v''" dim] obtain v0 where
    v0: "Linear_forward K (at_v m) xr = Inr v0" "shape v0 = [B, (H div sr) * (W div sr), dim]"
    by (auto simp: f)
  have "prod_list (shape v0) = B * ((H div sr) * (W div sr)) * h * (dim div h)"
    using hv by (simp add: v0 mult.assoc)
  moreover have "0 < B * h * (dim div h)" using pos h by simp
  ultimately obtain v1 where
    v1: "reshape K [Some B, None, Some h, Some (dim div h)] v0 = Inr v1"
        "shape v1 = [B, (H div sr) * (W div sr), h, dim div h]"
    using reshape_second_ok[of v0 B "(H div sr) * (W div sr)" h "dim div h" K] by auto
  from permute4_ok[OF v1(2), of K] obtain v where
    v: "permute K [0, 2, 1, 3] v1 = Inr v" "shape v = [B, h, (H div sr) * (W div sr), dim div h]"
    by auto
  show ?thesis
    using sr(1) x1 x2 x3 x4 x5 xr k0 k1 k v0 v1 v
    by (simp add: Attention_kv_def Let_def f(2,3,8) f(9)[OF sr(1)])
qed


lemma Attention_logits_ok:
  assumes init: "Attention_init nm dim h qs qr sr = Inr m"
      and x: "shape x = [B, H * W, dim]"
      and hq: "h dvd dim div qr" and hv: "h dvd dim"
      and srp: "1 < sr \<Longrightarrow> sr \<le> H \<and> sr \<le> W \<and> 0 < B \<and> 0 < dim div qr div h \<and> 0 < dim div h
                  \<and> (training \<longrightarrow> B * ((H div sr) * (W div sr)) \<noteq> 1)"
  shows "\<exists>l v. Attention_logits K training m x H W = Inr (l, v)
           \<and> shape l = [B, h, H * W, kv_count sr H W]
           \<and> shape v = [B, h, kv_count sr H W, dim div h]"
proof -
  note f = Attention_init_Inr[OF init]
  have x': "shape x = [B, H * W] @ [dim]" using x by simp
  from Linear_ok[OF x', of K "nm @ ''.q''" "dim div qr"] obtain q0 where
    q0: "Linear_forward K (at_q m) x = Inr q0" "shape q0 = [B, H * W, dim div qr]" by (auto simp: f)
  have "prod_list (shape q0) = B * (H * W) * h * (dim div qr div h)" using hq by (simp add: q0 mult.assoc)
  from reshape4_ok[OF this, of K] obtain q1 where
    q1: "reshape K [Some B, Some (H * W), Some h, Some (dim div qr div h)] q0 = Inr q1"
        "shape q1 = [B, H * W, h, dim div qr div h]" by auto
  from permute4_ok[OF q1(2), of K] obtain q where
    q: "permute K [0, 2, 1, 3] q1 = Inr q" "shape q = [B, h, H * W, dim div qr div h]" by auto
  have "\<exists>k v. Attention_kv K training m x B (H * W) dim H W = Inr (k, v)
           \<and> shape k = [B, h, kv_count sr H W, dim div qr div h]
           \<and> shape v = [B, h, kv_count sr H W, dim div h]"
  proof (cases "1 < sr")
    case True
    with srp have c: "sr \<le> H" "sr \<le> W" "0 < B" "0 < dim div qr div h" "0 < dim div h"
       "training \<longrightarrow> B * ((H div sr) * (W div sr)) \<noteq> 1" by auto
    from Attention_kv_sr_ok[OF init True c(1,2) x hq hv c(3,4,5,6), of K] True
    show ?thesis by (simp add: kv_count_def)
  next
    case False
    from Attention_kv_plain_ok[OF init False x hq hv, of K training H W] False
    show ?thesis by (simp add: kv_count_def)
  qed
  then obtain k v where
    kv: "Attention_kv K training m x B (H * W) dim H W = Inr (k, v)"
        "shape k = [B, h, kv_count sr H W, dim div qr div h]"
        "shape v = [B, h, kv_count sr H W, dim div h]" by auto
  from transpose_last_ok[OF kv(2), of K] obtain kt where
    kt: "transpose K (- 2) (- 1) k = Inr kt" "shape kt = [B, h, dim div qr div h, kv_count sr H W]"
    by auto
  from matmul4_ok[OF q(2) kt(2), of K] obtain a where
    a: "matmul K q kt = Inr a" "shape a = [B, h, H * W, kv_count sr H W]" by auto
  show ?thesis
    using q0 q1 q kv kt a
    by (simp add: Attention_logits_def unpack3_def x f(1,2,3) scale_by_def)
qed

lemma Attention_finish_ok:
  assumes init: "Attention_init nm dim h qs qr sr = Inr m"
      and x: "shape x = [B, N, dim]"
      and a: "shape a = [B, h, N, M]"
      and v: "shape v = [B, h, M, dim div h]"
      and hv: "h dvd dim"
  shows "\<exists>y. Attention_finish K m x a v = Inr y \<and> shape y = [B, N, dim]"
proof -
  note f = Attention_init_Inr[OF init]
  from softmax_ok[OF a, of K] obtain s where
    s: "softmax K (- 1) a = Inr s" "shape s = [B, h, N, M]" by auto
  from matmul4_ok[OF s(2) v, of K] obtain o1 where
    o1: "matmul K s v = Inr o1" "shape o1 = [B, h, N, dim div h]" by auto
  from transpose12_4_ok[OF o1(2), of K] obtain o2 where
    o2: "transpose K 1 2 o1 = Inr o2" "shape o2 = [B, N, h, dim div h]" by auto
  have "prod_list (shape o2) = B * N * dim" using hv by (simp add: o2 mult.assoc)
  from reshape3_ok[OF this, of K] obtain o3 where
    o3: "reshape K [Some B, Some N, Some dim] o2 = Inr o3" "shape o3 = [B, N, dim]" by auto
  have o3': "shape o3 = [B, N] @ [dim]" using o3 by simp
  from Linear_ok[OF o3', of K "nm @ ''.proj''" dim] obtain y where
    y: "Linear_forward K (at_proj m) o3 = Inr y" "shape y = [B, N, dim]" by (auto simp: f)
  show ?thesis
    using s o1 o2 o3 y by (simp add: Attention_finish_def unpack3_def x)
qed

lemma Attention_forward_ok:
  assumes init: "Attention_init nm dim h qs qr sr = Inr m"
      and x: "shape x = [B, H * W, dim]"
      and hq: "h dvd dim div qr" and hv: "h dvd dim"
      and srp: "1 < sr \<Longrightarrow> sr \<le> H \<and> sr \<le> W \<and> 0 < B \<and> 0 < dim div qr div h \<and> 0 < dim div h
                  \<and> (training \<longrightarrow> B * ((H div sr) * (W div sr)) \<noteq> 1)"
      and rp: "shape rp = [h, H * W, kv_count sr H W]"
  shows "\<exists>y. Attention_forward K training m x H W rp = Inr y \<and> shape y = [B, H * W, dim]"
proof -
  from Attention_logits_ok[OF init x hq hv srp, of K] obtain l v where
    lv: "Attention_logits K training m x H W = Inr (l, v)"
        "shape l = [B, h, H * W, kv_count sr H W]"
        "shape v = [B, h, kv_count sr H W, dim div h]" by blast
  from add_bias_ok[OF lv(2) rp, of K] obtain a where
    a: "add K l rp = Inr a" "shape a = [B, h, H * W, kv_count sr H W]" by auto
  from Attention_finish_ok[OF init x a(2) lv(3) hv, of K] obtain y where
    y: "Attention_finish K m x a v = Inr y" "shape y = [B, H * W, dim]" by auto
  show ?thesis by (simp add: Attention_forward_phases lv a y)
qed

lemma Block_init_Inr:
  assumes "Block_init nm dim h qs qr sr = Inr b"
  shows "blk_norm1 b = LayerNorm_init (nm @ ''.norm1'') dim"
    "Attention_init (nm @ ''.attn'') dim h qs qr sr = Inr (blk_attn b)"
    "blk_proj b = \<lparr>cv_key = nm @ ''.proj'', in_channels = dim, out_channels = dim,
        cv_kernel_size = 3, cv_stride = 1, cv_padding = 1, groups = dim\<rparr>"
    "0 < dim"
  using assms
  by (auto simp: Block_init_def Conv2d_init_def and_then_eq_Inr split: if_splits)

lemma Block_forward_ok:
  assumes init: "Block_init nm dim h qs qr sr = Inr b"
      and x: "shape x = [B, H * W, dim]"
      and hw: "0 < H" "0 < W"
      and hq: "h dvd dim div qr" and hv: "h dvd dim"
      and srp: "1 < sr \<Longrightarrow> sr \<le> H \<and> sr \<le> W \<and> 0 < B \<and> 0 < dim div qr div h \<and> 0 < dim div h
                  \<and> (training \<longrightarrow> B * ((H div sr) * (W div sr)) \<noteq> 1)"
      and rp: "shape rp = [h, H * W, kv_count sr H W]"
  shows "\<exists>y. Block_forward K training b x H W rp = Inr y \<and> shape y = [B, H * W, dim]"
proof -
  note f = Block_init_Inr[OF init]
  have "\<exists>n. LayerNorm_forward K (blk_norm1 b) x = Inr n \<and> shape n = [B, H * W, dim]"
    by (simp add: f LayerNorm_forward_def LayerNorm_init_def x)
  then obtain n where n: "LayerNorm_forward K (blk_norm1 b) x = Inr n" "shape n = [B, H * W, dim]"
    by auto
  from Attention_forward_ok[OF f(2) n(2) hq hv srp rp, of K] obtain a where
    a: "Attention_forward K training (blk_attn b) n H W rp = Inr a" "shape a = [B, H * W, dim]"
    by auto
  from add_same_ok[OF x a(2), of K] obtain x1 where
    x1: "add K x a = Inr x1" "shape x1 = [B, H * W, dim]" by auto
  from permute3_ok[OF x1(2), of K] obtain p where
    p: "permute K [0, 2, 1] x1 = Inr p" "shape p = [B, dim, H * W]" by auto
  have "prod_list (shape p) = B * dim * H * W" by (simp add: p mult.assoc)
  from reshape4_ok[OF this, of K] obtain cf where
    cf: "reshape K [Some B, Some dim, Some H, Some W] p = Inr cf" "shape cf = [B, dim, H, W]"
    by auto
  have "\<exists>c. Conv2d_forward K (blk_proj b) cf = Inr c \<and> shape c = [B, dim, H, W]"
    using hw by (simp add: f Conv2d_forward_def conv_out_def cf)
  then obtain c where c: "Conv2d_forward K (blk_proj b) cf = Inr c" "shape c = [B, dim, H, W]"
    by auto
  from add_same_ok[OF c(2) cf(2), of K] obtain x2 where
    x2: "add K c cf = Inr x2" "shape x2 = [B, dim, H, W]" by auto
  have "\<exists>y. flatten K 2 x2 = Inr y \<and> shape y = [B, dim, H * W]"
    by (simp add: flatten_def x2)
  then obtain x3 where x3: "flatten K 2 x2 = Inr x3" "shape x3 = [B, dim, H * W]" by auto
  from permute3_ok[OF x3(2), of K] obtain y where
    y: "permute K [0, 2, 1] x3 = Inr y" "shape y = [B, H * W, dim]" by auto
  show ?thesis
    using n a x1 p cf c x2 x3 y by (simp add: Block_forward_def unpack3_def x)
qed

lemma run_blocks_ok:
  assumes blks: "\<forall>b \<in> set blks. \<exists>nm. Block_init nm dim h qs qr sr = Inr b"
      and x: "shape x = [B, H * W, dim]"
      and hw: "0 < H" "0 < W"
      and hq: "h dvd dim div qr" and hv: "h dvd dim"
      and srp: "1 < sr \<Longrightarrow> sr \<le> H \<and> sr \<le> W \<and> 0 < B \<and> 0 < dim div qr div h \<and> 0 < dim div h
                  \<and> (training \<longrightarrow> B * ((H div sr) * (W div sr)) \<noteq> 1)"
      and rp: "shape rp = [h, H * W, kv_count sr H W]"
  shows "\<exists>y. run_blocks K training blks x H W rp = Inr y \<and> shape y = [B, H * W, dim]"
  using blks x
proof (induction blks arbitrary: x)
  case Nil
  then show ?case by simp
next
  case (Cons b blks)
  from Cons.prems(1) obtain nm where b: "Block_init nm dim h qs qr sr = Inr b" by auto
  from Block_forward_ok[OF b Cons.prems(2) hw hq hv srp rp, of K] obtain y where
    y: "Block_forward K training b x H W rp = Inr y" "shape y = [B, H * W, dim]" by auto
  from Cons.prems(1) have "\<forall>b \<in> set blks. \<exists>nm. Block_init nm dim h qs qr sr = Inr b" by simp
  from Cons.IH[OF this y(2)] y(1) show ?case by simp
qed





subsection \<open>The relative-position bias and the stack that consumes it\<close>





lemma decoder_stacks:
  assumes "DecoderC_init K img ed nh qs dp qr sr = Inr m"
  shows "\<forall>b \<in> set (dec_blocks_d m). \<exists>nm. Block_init nm (ed ! 1) (nh ! 3) qs qr (sr ! 3) = Inr b"
        "\<forall>b \<in> set (dec_blocks_c m). \<exists>nm. Block_init nm (ed ! 2) (nh ! 2) qs qr (sr ! 2) = Inr b"
        "0 < sr ! 3" "0 < sr ! 2"
proof -
  from DecoderC_init_Inr[OF assms] obtain pb pc pd rc rd bc bd where
    all: "3 < length ed \<and> 3 < length nh \<and> 3 < length sr \<and> 3 < length dp
         \<and> PatchEmbed_init ''patch_embed_b'' (img div 4) 4 (ed ! 2) (ed ! 3) 7 4 2 False = Inr pb
         \<and> PatchEmbed_init ''patch_embed_c'' (img div 8) 2 (ed ! 1) (ed ! 2) 3 2 1 True = Inr pc
         \<and> PatchEmbed_init ''patch_embed_d'' (img div 16) 2 (ed ! 0) (ed ! 1) 3 2 1 True = Inr pd
         \<and> relative_pos_init K ''relative_pos_c'' (nh ! 2) (pe_num_patches pc) (sr ! 2) = Inr rc
         \<and> relative_pos_init K ''relative_pos_d'' (nh ! 3) (pe_num_patches pd) (sr ! 3) = Inr rd
         \<and> collect (map (\<lambda>i. Block_init (''blocks_c.'' @ str i) (ed ! 2) (nh ! 2) qs qr (sr ! 2))
                      [0 ..< dp ! 2]) = Inr bc
         \<and> collect (map (\<lambda>i. Block_init (''blocks_d.'' @ str i) (ed ! 1) (nh ! 3) qs qr (sr ! 3))
                      [0 ..< dp ! 3]) = Inr bd
         \<and> m = \<lparr>dec_norm = LayerNorm_init ''norm'' (ed ! 0),
                 dec_mlp = \<lparr>seq_0 = Linear_init ''mlp.0'' (ed ! 0) (ed ! 0),
                            seq_2 = Linear_init ''mlp.2'' (ed ! 0) (ed ! 1)\<rparr>,
                 dec_img_size = img,
                 dec_patch_embed_b = pb, dec_patch_embed_c = pc, dec_patch_embed_d = pd,
                 dec_relative_pos_c = rc, dec_relative_pos_d = rd,
                 dec_pre_1_16 = Linear_init ''pre_1_16'' (ed ! 1) 1,
                 dec_pre_1_8 = Linear_init ''pre_1_8'' (ed ! 1) 1,
                 dec_pre_1_4 = Linear_init ''pre_1_4'' (ed ! 2) 1,
                 dec_pre_1_1 = Linear_init ''pre_1_1'' (ed ! 3) 1,
                 dec_blocks_c = bc, dec_blocks_d = bd\<rparr>"
    by blast
  from all have
        rc: "relative_pos_init K ''relative_pos_c'' (nh ! 2) (pe_num_patches pc) (sr ! 2) = Inr rc"
    and rd: "relative_pos_init K ''relative_pos_d'' (nh ! 3) (pe_num_patches pd) (sr ! 3) = Inr rd"
    and bc: "collect (map (\<lambda>i. Block_init (''blocks_c.'' @ str i) (ed ! 2) (nh ! 2) qs qr (sr ! 2))
                      [0 ..< dp ! 2]) = Inr bc"
    and bd: "collect (map (\<lambda>i. Block_init (''blocks_d.'' @ str i) (ed ! 1) (nh ! 3) qs qr (sr ! 3))
                      [0 ..< dp ! 3]) = Inr bd"
    by blast+
  from all have m: "dec_blocks_c m = bc" "dec_blocks_d m = bd" by simp_all
  from collect_map_Inr[OF bd] m
  show "\<forall>b \<in> set (dec_blocks_d m). \<exists>nm. Block_init nm (ed ! 1) (nh ! 3) qs qr (sr ! 3) = Inr b"
    by blast
  from collect_map_Inr[OF bc] m
  show "\<forall>b \<in> set (dec_blocks_c m). \<exists>nm. Block_init nm (ed ! 2) (nh ! 2) qs qr (sr ! 2) = Inr b"
    by blast
  show "0 < sr ! 3" using relative_pos_init_Inr[OF rd] by simp
  show "0 < sr ! 2" using relative_pos_init_Inr[OF rc] by simp
qed




subsection \<open>The forward pass of the default decoder\<close>

lemma mask_head_ok:
  assumes "shape x = [B, s * s, e]"
  shows "\<exists>y. mask_head K (Linear_init nm e 1) x B s = Inr y \<and> shape y = [B, 1, s, s]"
proof -
  have x': "shape x = [B, s * s] @ [e]" using assms by simp
  from Linear_ok[OF x', of K nm 1] obtain m1 where
    m1: "Linear_forward K (Linear_init nm e 1) x = Inr m1" "shape m1 = [B, s * s, 1]" by auto
  from transpose12_3_ok[OF m1(2), of K] obtain m2 where
    m2: "transpose K 1 2 m1 = Inr m2" "shape m2 = [B, 1, s * s]" by auto
  have "prod_list (shape m2) = B * 1 * s * s" by (simp add: m2 mult.assoc)
  from reshape4_ok[OF this, of K] obtain y where
    y: "reshape K [Some B, Some 1, Some s, Some s] m2 = Inr y" "shape y = [B, 1, s, s]" by auto
  show ?thesis using m1 m2 y by (simp add: mask_head_def)
qed

lemma to_grid_ok:
  assumes "shape x = [B, H * W, C]" "0 < B" "0 < H" "0 < W"
  shows "\<exists>y. to_grid K x B H W = Inr y \<and> shape y = [B, C, H, W]"
proof -
  have "prod_list (shape x) = B * H * W * C" by (simp add: assms mult.assoc)
  moreover have "0 < B * H * W" using assms by simp
  ultimately obtain g where
    g: "reshape K [Some B, Some H, Some W, None] x = Inr g" "shape g = [B, H, W, C]"
    using reshape_grid_ok[of x B H W C K] by auto
  have "\<exists>y. permute K [0, 3, 1, 2] g = Inr y \<and> shape y = [B, C, H, W]"
    by (simp add: permute_def g)
  then obtain y where y: "permute K [0, 3, 1, 2] g = Inr y" "shape y = [B, C, H, W]" by auto
  show ?thesis using g y by (simp add: to_grid_def)
qed

lemma to_grid_empty: "to_grid K x 0 H W = Inl RuntimeError"
  by (simp add: to_grid_def reshape_def infer_size_def known_size_def)


lemma DecoderC_init_fields:
  assumes "DecoderC_init K img ed nh qs dp qr sr = Inr m"
  shows "dec_norm m = LayerNorm_init ''norm'' (ed ! 0)"
    "dec_mlp m = \<lparr>seq_0 = Linear_init ''mlp.0'' (ed ! 0) (ed ! 0),
                  seq_2 = Linear_init ''mlp.2'' (ed ! 0) (ed ! 1)\<rparr>"
    "dec_img_size m = img"
    "PatchEmbed_init ''patch_embed_b'' (img div 4) 4 (ed ! 2) (ed ! 3) 7 4 2 False
       = Inr (dec_patch_embed_b m)"
    "PatchEmbed_init ''patch_embed_c'' (img div 8) 2 (ed ! 1) (ed ! 2) 3 2 1 True
       = Inr (dec_patch_embed_c m)"
    "PatchEmbed_init ''patch_embed_d'' (img div 16) 2 (ed ! 0) (ed ! 1) 3 2 1 True
       = Inr (dec_patch_embed_d m)"
    "dec_pre_1_16 m = Linear_init ''pre_1_16'' (ed ! 1) 1"
    "dec_pre_1_8 m = Linear_init ''pre_1_8'' (ed ! 1) 1"
    "dec_pre_1_4 m = Linear_init ''pre_1_4'' (ed ! 2) 1"
    "dec_pre_1_1 m = Linear_init ''pre_1_1'' (ed ! 3) 1"
proof -
  from DecoderC_init_Inr[OF assms] obtain pb pc pd rc rd bc bd where
    all: "3 < length ed \<and> 3 < length nh \<and> 3 < length sr \<and> 3 < length dp
         \<and> PatchEmbed_init ''patch_embed_b'' (img div 4) 4 (ed ! 2) (ed ! 3) 7 4 2 False = Inr pb
         \<and> PatchEmbed_init ''patch_embed_c'' (img div 8) 2 (ed ! 1) (ed ! 2) 3 2 1 True = Inr pc
         \<and> PatchEmbed_init ''patch_embed_d'' (img div 16) 2 (ed ! 0) (ed ! 1) 3 2 1 True = Inr pd
         \<and> relative_pos_init K ''relative_pos_c'' (nh ! 2) (pe_num_patches pc) (sr ! 2) = Inr rc
         \<and> relative_pos_init K ''relative_pos_d'' (nh ! 3) (pe_num_patches pd) (sr ! 3) = Inr rd
         \<and> collect (map (\<lambda>i. Block_init (''blocks_c.'' @ str i) (ed ! 2) (nh ! 2) qs qr (sr ! 2))
                      [0 ..< dp ! 2]) = Inr bc
         \<and> collect (map (\<lambda>i. Block_init (''blocks_d.'' @ str i) (ed ! 1) (nh ! 3) qs qr (sr ! 3))
                      [0 ..< dp ! 3]) = Inr bd
         \<and> m = \<lparr>dec_norm = LayerNorm_init ''norm'' (ed ! 0),
                 dec_mlp = \<lparr>seq_0 = Linear_init ''mlp.0'' (ed ! 0) (ed ! 0),
                            seq_2 = Linear_init ''mlp.2'' (ed ! 0) (ed ! 1)\<rparr>,
                 dec_img_size = img,
                 dec_patch_embed_b = pb, dec_patch_embed_c = pc, dec_patch_embed_d = pd,
                 dec_relative_pos_c = rc, dec_relative_pos_d = rd,
                 dec_pre_1_16 = Linear_init ''pre_1_16'' (ed ! 1) 1,
                 dec_pre_1_8 = Linear_init ''pre_1_8'' (ed ! 1) 1,
                 dec_pre_1_4 = Linear_init ''pre_1_4'' (ed ! 2) 1,
                 dec_pre_1_1 = Linear_init ''pre_1_1'' (ed ! 3) 1,
                 dec_blocks_c = bc, dec_blocks_d = bd\<rparr>"
    by blast
  from all show "dec_norm m = LayerNorm_init ''norm'' (ed ! 0)"
    "dec_mlp m = \<lparr>seq_0 = Linear_init ''mlp.0'' (ed ! 0) (ed ! 0),
                  seq_2 = Linear_init ''mlp.2'' (ed ! 0) (ed ! 1)\<rparr>"
    "dec_img_size m = img"
    "PatchEmbed_init ''patch_embed_b'' (img div 4) 4 (ed ! 2) (ed ! 3) 7 4 2 False
       = Inr (dec_patch_embed_b m)"
    "PatchEmbed_init ''patch_embed_c'' (img div 8) 2 (ed ! 1) (ed ! 2) 3 2 1 True
       = Inr (dec_patch_embed_c m)"
    "PatchEmbed_init ''patch_embed_d'' (img div 16) 2 (ed ! 0) (ed ! 1) 3 2 1 True
       = Inr (dec_patch_embed_d m)"
    "dec_pre_1_16 m = Linear_init ''pre_1_16'' (ed ! 1) 1"
    "dec_pre_1_8 m = Linear_init ''pre_1_8'' (ed ! 1) 1"
    "dec_pre_1_4 m = Linear_init ''pre_1_4'' (ed ! 2) 1"
    "dec_pre_1_1 m = Linear_init ''pre_1_1'' (ed ! 3) 1"
    by simp_all
qed

lemma default_fields:
  assumes "DecoderC_default K = Inr m"
  shows "dec_norm m = LayerNorm_init ''norm'' 384"
    "dec_mlp m = \<lparr>seq_0 = Linear_init ''mlp.0'' 384 384, seq_2 = Linear_init ''mlp.2'' 384 128\<rparr>"
    "dec_img_size m = 224"
    "PatchEmbed_init ''patch_embed_b'' 56 4 64 16 7 4 2 False = Inr (dec_patch_embed_b m)"
    "PatchEmbed_init ''patch_embed_c'' 28 2 128 64 3 2 1 True = Inr (dec_patch_embed_c m)"
    "PatchEmbed_init ''patch_embed_d'' 14 2 384 128 3 2 1 True = Inr (dec_patch_embed_d m)"
    "dec_pre_1_16 m = Linear_init ''pre_1_16'' 128 1"
    "dec_pre_1_8 m = Linear_init ''pre_1_8'' 128 1"
    "dec_pre_1_4 m = Linear_init ''pre_1_4'' 64 1"
    "dec_pre_1_1 m = Linear_init ''pre_1_1'' 16 1"
    "shape (dec_relative_pos_d m) = [8, 28 * 28, 28 * 28 div (1 * 1)]"
    "shape (dec_relative_pos_c m) = [4, 56 * 56, 56 * 56 div (2 * 2)]"
    "\<forall>b \<in> set (dec_blocks_d m). \<exists>nm. Block_init nm 128 8 False 1 1 = Inr b"
    "\<forall>b \<in> set (dec_blocks_c m). \<exists>nm. Block_init nm 64 4 False 1 2 = Inr b"
proof -
  note i = assms[unfolded DecoderC_default_def]
  from DecoderC_init_fields[OF i]
  show "dec_norm m = LayerNorm_init ''norm'' 384"
    "dec_mlp m = \<lparr>seq_0 = Linear_init ''mlp.0'' 384 384, seq_2 = Linear_init ''mlp.2'' 384 128\<rparr>"
    "dec_img_size m = 224"
    "PatchEmbed_init ''patch_embed_b'' 56 4 64 16 7 4 2 False = Inr (dec_patch_embed_b m)"
    "PatchEmbed_init ''patch_embed_c'' 28 2 128 64 3 2 1 True = Inr (dec_patch_embed_c m)"
    "PatchEmbed_init ''patch_embed_d'' 14 2 384 128 3 2 1 True = Inr (dec_patch_embed_d m)"
    "dec_pre_1_16 m = Linear_init ''pre_1_16'' 128 1"
    "dec_pre_1_8 m = Linear_init ''pre_1_8'' 128 1"
    "dec_pre_1_4 m = Linear_init ''pre_1_4'' 64 1"
    "dec_pre_1_1 m = Linear_init ''pre_1_1'' 16 1"
    by simp_all
  from relative_pos_shapes[OF i]
  show "shape (dec_relative_pos_d m) = [8, 28 * 28, 28 * 28 div (1 * 1)]"
       "shape (dec_relative_pos_c m) = [4, 56 * 56, 56 * 56 div (2 * 2)]"
    by simp_all
  from decoder_stacks(1,2)[OF i]
  show "\<forall>b \<in> set (dec_blocks_d m). \<exists>nm. Block_init nm 128 8 False 1 1 = Inr b"
       "\<forall>b \<in> set (dec_blocks_c m). \<exists>nm. Block_init nm 64 4 False 1 2 = Inr b"
    by simp_all
qed


lemma default_stage_d:
  assumes m: "DecoderC_default K = Inr m"
      and x: "shape x = [B, 196, 384]"
      and x8: "shape x_1_8 = [B, 784, 128]"
  shows "\<exists>n s m16 xt xg xd1 xd m8.
           LayerNorm_forward K (dec_norm m) x = Inr n
         \<and> Sequential_forward K (dec_mlp m) n = Inr s
         \<and> mask_head K (dec_pre_1_16 m) s B (dec_img_size m div 16) = Inr m16
         \<and> shape m16 = [B, 1, 14, 14]
         \<and> transpose K 1 2 x = Inr xt
         \<and> reshape K [Some B, Some 384, Some 14, Some 14] xt = Inr xg
         \<and> PatchEmbed_forward K (dec_patch_embed_d m) xg (Some x_1_8) = Inr (xd1, (28, 28))
         \<and> run_blocks K training (dec_blocks_d m) xd1 28 28 (dec_relative_pos_d m) = Inr xd
         \<and> shape xd = [B, 784, 128]
         \<and> mask_head K (dec_pre_1_8 m) xd B (dec_img_size m div 8) = Inr m8
         \<and> shape m8 = [B, 1, 28, 28]"
proof -
  note f = default_fields[OF m]
  have "\<exists>n. LayerNorm_forward K (dec_norm m) x = Inr n \<and> shape n = [B, 196, 384]"
    by (simp add: f LayerNorm_forward_def LayerNorm_init_def x)
  then obtain n where n: "LayerNorm_forward K (dec_norm m) x = Inr n" "shape n = [B, 196, 384]"
    by auto
  have "\<exists>s. Sequential_forward K (dec_mlp m) n = Inr s \<and> shape s = [B, 14 * 14, 128]"
    by (simp add: f Sequential_forward_def Linear_forward_def Linear_init_def GELU_def n)
  then obtain s where s: "Sequential_forward K (dec_mlp m) n = Inr s" "shape s = [B, 14 * 14, 128]"
    by auto
  from mask_head_ok[OF s(2), of K "''pre_1_16''"] obtain m16 where
    m16: "mask_head K (dec_pre_1_16 m) s B (dec_img_size m div 16) = Inr m16"
         "shape m16 = [B, 1, 14, 14]" by (auto simp: f)
  from transpose12_3_ok[OF x, of K] obtain xt where
    xt: "transpose K 1 2 x = Inr xt" "shape xt = [B, 384, 196]" by auto
  have "prod_list (shape xt) = B * 384 * 14 * 14" by (simp add: xt)
  from reshape4_ok[OF this, of K] obtain xg where
    xg: "reshape K [Some B, Some 384, Some 14, Some 14] xt = Inr xg" "shape xg = [B, 384, 14, 14]"
    by auto
  have "\<exists>y. PatchEmbed_forward K (dec_patch_embed_d m) xg (Some x_1_8) = Inr (y, (14 * 2, 14 * 2))
              \<and> shape y = [B, (14 * 2) * (14 * 2), 128]"
    by (rule PatchEmbed_forward_ok[OF f(6) xg(2)]) (simp_all add: n_blocks_def x8)
  then obtain xd1 where
    xd1: "PatchEmbed_forward K (dec_patch_embed_d m) xg (Some x_1_8) = Inr (xd1, (28, 28))"
         "shape xd1 = [B, 28 * 28, 128]" by auto
  have "\<exists>y. run_blocks K training (dec_blocks_d m) xd1 28 28 (dec_relative_pos_d m) = Inr y
              \<and> shape y = [B, 28 * 28, 128]"
    by (rule run_blocks_ok[OF f(13) xd1(2)]) (simp_all add: f(11) kv_count_def)
  then obtain xd where
    xd: "run_blocks K training (dec_blocks_d m) xd1 28 28 (dec_relative_pos_d m) = Inr xd"
        "shape xd = [B, 28 * 28, 128]" by auto
  from mask_head_ok[OF xd(2), of K "''pre_1_8''"] obtain m8 where
    m8: "mask_head K (dec_pre_1_8 m) xd B (dec_img_size m div 8) = Inr m8"
        "shape m8 = [B, 1, 28, 28]" by (auto simp: f)
  from n s m16 xt xg xd1 xd m8 show ?thesis by simp
qed


lemma default_stage_cb:
  assumes m: "DecoderC_default K = Inr m"
      and B: "0 < B"
      and xd: "shape xd = [B, 784, 128]"
      and x4: "shape x_1_4 = [B, 3136, 64]"
  shows "\<exists>gd xc1 xc m4 gc xb m1.
           to_grid K xd B 28 28 = Inr gd
         \<and> PatchEmbed_forward K (dec_patch_embed_c m) gd (Some x_1_4) = Inr (xc1, (56, 56))
         \<and> run_blocks K training (dec_blocks_c m) xc1 56 56 (dec_relative_pos_c m) = Inr xc
         \<and> mask_head K (dec_pre_1_4 m) xc B (dec_img_size m div 4) = Inr m4
         \<and> shape m4 = [B, 1, 56, 56]
         \<and> to_grid K xc B 56 56 = Inr gc
         \<and> PatchEmbed_forward K (dec_patch_embed_b m) gc None = Inr (xb, (224, 224))
         \<and> mask_head K (dec_pre_1_1 m) xb B (dec_img_size m div 1) = Inr m1
         \<and> shape m1 = [B, 1, 224, 224]"
proof -
  note f = default_fields[OF m]
  have xd': "shape xd = [B, 28 * 28, 128]" using xd by simp
  from to_grid_ok[OF xd' B, of K] obtain gd where
    gd: "to_grid K xd B 28 28 = Inr gd" "shape gd = [B, 128, 28, 28]" by auto
  have "\<exists>y. PatchEmbed_forward K (dec_patch_embed_c m) gd (Some x_1_4) = Inr (y, (28 * 2, 28 * 2))
              \<and> shape y = [B, (28 * 2) * (28 * 2), 64]"
    by (rule PatchEmbed_forward_ok[OF f(5) gd(2)]) (simp_all add: n_blocks_def x4)
  then obtain xc1 where
    xc1: "PatchEmbed_forward K (dec_patch_embed_c m) gd (Some x_1_4) = Inr (xc1, (56, 56))"
         "shape xc1 = [B, 56 * 56, 64]" by auto
  have "\<exists>y. run_blocks K training (dec_blocks_c m) xc1 56 56 (dec_relative_pos_c m) = Inr y
              \<and> shape y = [B, 56 * 56, 64]"
    by (rule run_blocks_ok[OF f(14) xc1(2)]) (use B in \<open>simp_all add: f(12) kv_count_def\<close>)
  then obtain xc where
    xc: "run_blocks K training (dec_blocks_c m) xc1 56 56 (dec_relative_pos_c m) = Inr xc"
        "shape xc = [B, 56 * 56, 64]" by auto
  from mask_head_ok[OF xc(2), of K "''pre_1_4''"] obtain m4 where
    m4: "mask_head K (dec_pre_1_4 m) xc B (dec_img_size m div 4) = Inr m4"
        "shape m4 = [B, 1, 56, 56]" by (auto simp: f)
  from to_grid_ok[OF xc(2) B, of K] obtain gc where
    gc: "to_grid K xc B 56 56 = Inr gc" "shape gc = [B, 64, 56, 56]" by auto
  have "\<exists>y. PatchEmbed_forward K (dec_patch_embed_b m) gc None = Inr (y, (56 * 4, 56 * 4))
              \<and> shape y = [B, (56 * 4) * (56 * 4), 16]"
    by (rule PatchEmbed_forward_ok[OF f(4) gc(2)]) (simp_all add: n_blocks_def)
  then obtain xb where
    xb: "PatchEmbed_forward K (dec_patch_embed_b m) gc None = Inr (xb, (224, 224))"
        "shape xb = [B, 224 * 224, 16]" by auto
  from mask_head_ok[OF xb(2), of K "''pre_1_1''"] obtain m1 where
    m1: "mask_head K (dec_pre_1_1 m) xb B (dec_img_size m div 1) = Inr m1"
        "shape m1 = [B, 1, 224, 224]" by (auto simp: f)
  from gd xc1 xc m4 gc xb m1 show ?thesis by simp
qed

lemma forward_features_default:
  assumes m: "DecoderC_default K = Inr m"
      and B: "0 < B"
      and x: "shape x = [B, 196, 384]"
      and x8: "shape x_1_8 = [B, 784, 128]"
      and x4: "shape x_1_4 = [B, 3136, 64]"
  shows "\<exists>m16 m8 m4 m1. forward_features K training m x x_1_8 x_1_4 = Inr [m16, m8, m4, m1]
           \<and> shape m16 = [B, 1, 14, 14] \<and> shape m8 = [B, 1, 28, 28]
           \<and> shape m4 = [B, 1, 56, 56] \<and> shape m1 = [B, 1, 224, 224]"
proof -
  from default_stage_d[OF m x x8, of training] obtain n s m16 xt xg xd1 xd m8 where
    d: "LayerNorm_forward K (dec_norm m) x = Inr n"
       "Sequential_forward K (dec_mlp m) n = Inr s"
       "mask_head K (dec_pre_1_16 m) s B (dec_img_size m div 16) = Inr m16"
       "transpose K 1 2 x = Inr xt"
       "reshape K [Some B, Some 384, Some 14, Some 14] xt = Inr xg"
       "PatchEmbed_forward K (dec_patch_embed_d m) xg (Some x_1_8) = Inr (xd1, (28, 28))"
       "run_blocks K training (dec_blocks_d m) xd1 28 28 (dec_relative_pos_d m) = Inr xd"
       "mask_head K (dec_pre_1_8 m) xd B (dec_img_size m div 8) = Inr m8"
    and ds: "shape m16 = [B, 1, 14, 14]" "shape xd = [B, 784, 128]" "shape m8 = [B, 1, 28, 28]"
    by blast
  from default_stage_cb[OF m B ds(2) x4, of training] obtain gd xc1 xc m4 gc xb m1 where
    c: "to_grid K xd B 28 28 = Inr gd"
       "PatchEmbed_forward K (dec_patch_embed_c m) gd (Some x_1_4) = Inr (xc1, (56, 56))"
       "run_blocks K training (dec_blocks_c m) xc1 56 56 (dec_relative_pos_c m) = Inr xc"
       "mask_head K (dec_pre_1_4 m) xc B (dec_img_size m div 4) = Inr m4"
       "to_grid K xc B 56 56 = Inr gc"
       "PatchEmbed_forward K (dec_patch_embed_b m) gc None = Inr (xb, (224, 224))"
       "mask_head K (dec_pre_1_1 m) xb B (dec_img_size m div 1) = Inr m1"
    and cs: "shape m4 = [B, 1, 56, 56]" "shape m1 = [B, 1, 224, 224]"
    by blast
  have "forward_features K training m x x_1_8 x_1_4 = Inr [m16, m8, m4, m1]"
    using d c by (simp add: forward_features_def unpack3_def x)
  with ds cs show ?thesis by blast
qed

lemma forward_features_empty_batch:
  assumes m: "DecoderC_default K = Inr m"
      and x: "shape x = [0, 196, 384]"
      and x8: "shape x_1_8 = [0, 784, 128]"
  shows "forward_features K training m x x_1_8 x_1_4 = Inl RuntimeError"
proof -
  from default_stage_d[OF m x x8, of training] obtain n s m16 xt xg xd1 xd m8 where
    d: "LayerNorm_forward K (dec_norm m) x = Inr n"
       "Sequential_forward K (dec_mlp m) n = Inr s"
       "mask_head K (dec_pre_1_16 m) s 0 (dec_img_size m div 16) = Inr m16"
       "transpose K 1 2 x = Inr xt"
       "reshape K [Some 0, Some 384, Some 14, Some 14] xt = Inr xg"
       "PatchEmbed_forward K (dec_patch_embed_d m) xg (Some x_1_8) = Inr (xd1, (28, 28))"
       "run_blocks K training (dec_blocks_d m) xd1 28 28 (dec_relative_pos_d m) = Inr xd"
       "mask_head K (dec_pre_1_8 m) xd 0 (dec_img_size m div 8) = Inr m8"
    by blast
  show ?thesis
    using d to_grid_empty[of K xd 28 28] by (simp add: forward_features_def unpack3_def x)
qed

lemma unit_tensor_eq: "(t :: unit tensor) = tensor_of (shape t)"
  by (simp add: tensor_of_def)

lemma shape_Sigmoid [simp]: "shape (Sigmoid K x) = shape x"
  by (simp add: Sigmoid_def)

text \<open>
  C1, as stated, fails for the empty batch: with \<open>B = 0\<close> and inputs of the shapes the
  claim gives, the default decoder raises. Stage d runs, and then
  \<open>x.reshape(B, H, W, -1)\<close> has no elements from which to infer the last dimension.
\<close>

theorem DecoderC_forward_empty_batch_counterexample:
  "DecoderC_default unit_kernel = Inr (projr (DecoderC_default unit_kernel))
   \<and> DecoderC_forward unit_kernel False (projr (DecoderC_default unit_kernel))
        (tensor_of [0, 196, 384]) (tensor_of [0, 784, 128]) (tensor_of [0, 3136, 64])
      = Inl RuntimeError"
proof -
  from DecoderC_default_ok[of unit_kernel] obtain m where m: "DecoderC_default unit_kernel = Inr m"
    by blast
  have "forward_features unit_kernel False m (tensor_of [0, 196, 384]) (tensor_of [0, 784, 128])
          (tensor_of [0, 3136, 64]) = Inl RuntimeError"
    by (rule forward_features_empty_batch[OF m]) simp_all
  then show ?thesis by (simp add: m DecoderC_forward_def)
qed

text \<open>
  C1, amended. For every batch size \<open>B \<ge> 1\<close>, given \<open>x\<close> of shape \<open>(B, 196, 384)\<close>,
  \<open>x_1_8\<close> of shape \<open>(B, 784, 128)\<close> and \<open>x_1_4\<close> of shape \<open>(B, 3136, 64)\<close>, the
  decoder of the default configuration (\<open>img_size = 224\<close>) is constructed and its
  \<open>forward\<close> returns, in training and in inference, a list of exactly 8 tensors: the four
  mask logits of shapes \<open>(B, 1, 14, 14)\<close>, \<open>(B, 1, 28, 28)\<close>, \<open>(B, 1, 56, 56)\<close> and
  \<open>(B, 1, 224, 224)\<close>, in this order, followed by the sigmoid of each of them in the
  same order.
\<close>

theorem DecoderC_forward_default:
  assumes "0 < B"
      and "shape x = [B, 196, 384]"
      and "shape x_1_8 = [B, 784, 128]"
      and "shape x_1_4 = [B, 3136, 64]"
  shows "\<exists>m mask_1_16 mask_1_8 mask_1_4 mask_1_1.
           DecoderC_default K = Inr m
         \<and> DecoderC_forward K training m x x_1_8 x_1_4 =
             Inr [mask_1_16, mask_1_8, mask_1_4, mask_1_1,
                  Sigmoid K mask_1_16, Sigmoid K mask_1_8, Sigmoid K mask_1_4, Sigmoid K mask_1_1]
         \<and> shape mask_1_16 = [B, 1, 14, 14] \<and> shape mask_1_8 = [B, 1, 28, 28]
         \<and> shape mask_1_4 = [B, 1, 56, 56] \<and> shape mask_1_1 = [B, 1, 224, 224]
         \<and> shape (Sigmoid K mask_1_16) = [B, 1, 14, 14] \<and> shape (Sigmoid K mask_1_8) = [B, 1, 28, 28]
         \<and> shape (Sigmoid K mask_1_4) = [B, 1, 56, 56] \<and> shape (Sigmoid K mask_1_1) = [B, 1, 224, 224]"
proof -
  from DecoderC_default_ok[of K] obtain m where m: "DecoderC_default K = Inr m" by blast
  from forward_features_default[OF m assms, of training] obtain m16 m8 m4 m1 where
    f: "forward_features K training m x x_1_8 x_1_4 = Inr [m16, m8, m4, m1]"
    and s: "shape m16 = [B, 1, 14, 14]" "shape m8 = [B, 1, 28, 28]"
           "shape m4 = [B, 1, 56, 56]" "shape m1 = [B, 1, 224, 224]"
    by blast
  have "DecoderC_forward K training m x x_1_8 x_1_4 =
          Inr [m16, m8, m4, m1, Sigmoid K m16, Sigmoid K m8, Sigmoid K m4, Sigmoid K m1]"
    by (simp add: DecoderC_forward_def f Let_def)
  with m s show ?thesis by (intro exI[of _ m] exI[of _ m16] exI[of _ m8] exI[of _ m4] exI[of _ m1]) simp
qed

theorem DecoderC_forward_default_witness:
  "DecoderC_default unit_kernel = Inr (projr (DecoderC_default unit_kernel))
   \<and> DecoderC_forward unit_kernel False (projr (DecoderC_default unit_kernel))
        (tensor_of [2, 196, 384]) (tensor_of [2, 784, 128]) (tensor_of [2, 3136, 64])
      = Inr [tensor_of [2, 1, 14, 14], tensor_of [2, 1, 28, 28], tensor_of [2, 1, 56, 56],
             tensor_of [2, 1, 224, 224],
             tensor_of [2, 1, 14, 14], tensor_of [2, 1, 28, 28], tensor_of [2, 1, 56, 56],
             tensor_of [2, 1, 224, 224]]"
proof -
  from DecoderC_forward_default[of 2 "tensor_of [2, 196, 384]" "tensor_of [2, 784, 128]"
         "tensor_of [2, 3136, 64]" unit_kernel False]
  obtain m m16 m8 m4 m1 where
    m: "DecoderC_default unit_kernel = Inr m"
    and r: "DecoderC_forward unit_kernel False m (tensor_of [2, 196, 384]) (tensor_of [2, 784, 128])
              (tensor_of [2, 3136, 64]) =
             Inr [m16, m8, m4, m1, Sigmoid unit_kernel m16, Sigmoid unit_kernel m8,
                  Sigmoid unit_kernel m4, Sigmoid unit_kernel m1]"
    and s: "shape m16 = [2, 1, 14, 14]" "shape m8 = [2, 1, 28, 28]"
           "shape m4 = [2, 1, 56, 56]" "shape m1 = [2, 1, 224, 224]"
    by auto
  have e: "m16 = tensor_of [2, 1, 14, 14]" "m8 = tensor_of [2, 1, 28, 28]"
          "m4 = tensor_of [2, 1, 56, 56]" "m1 = tensor_of [2, 1, 224, 224]"
    using s unit_tensor_eq[of m16] unit_tensor_eq[of m8] unit_tensor_eq[of m4] unit_tensor_eq[of m1]
    by simp_all
  have g: "Sigmoid unit_kernel (tensor_of sh) = tensor_of sh" for sh
    by (simp add: Sigmoid_def mk_def tensor_of_def unit_kernel_def)
  from m r show ?thesis by (simp add: e g)
qed

subsection \<open>What a successful forward pass requires\<close>

lemma reshape4_Inr:
  assumes "reshape K [Some a, Some b, Some c, Some d] x = Inr y"
  shows "shape y = [a, b, c, d] \<and> prod_list (shape x) = a * (b * (c * d))"
  using assms
  by (auto simp: reshape_def infer_size_def known_size_def numel_def and_then_eq_Inr
        split: if_splits)

lemma mask_head_Inr:
  assumes "mask_head K (Linear_init nm e 1) x B s = Inr y" "shape x = [b, n, c]"
  shows "b * n = B * (s * s)"
proof -
  from assms(1) obtain m1 m2 where
    m1: "Linear_forward K (Linear_init nm e 1) x = Inr m1"
    and m2: "transpose K 1 2 m1 = Inr m2"
    and y: "reshape K [Some B, Some 1, Some s, Some s] m2 = Inr y"
    by (auto simp: mask_head_def and_then_eq_Inr)
  from m1 have "shape m1 = [b, n, 1]"
    by (auto simp: Linear_forward_def Linear_init_def assms(2) split: if_splits)
  with m2 have "shape m2 = [b, 1, n]"
    by (auto simp: transpose_def norm_dim_def and_then_eq_Inr)
  with reshape4_Inr[OF y] show ?thesis by simp
qed

lemma to_grid_Inr:
  assumes "to_grid K x B H W = Inr y"
  shows "0 < B \<and> (\<exists>C. shape y = [B, C, H, W])"
  using assms
  by (auto simp: to_grid_def reshape_def infer_size_def known_size_def permute_def
        and_then_eq_Inr split: if_splits)

lemma Sequential_shape:
  assumes "Sequential_forward K \<lparr>seq_0 = Linear_init n0 a b, seq_2 = Linear_init n2 b c\<rparr> x = Inr y"
      and "shape x = [B, N, C]"
  shows "shape y = [B, N, c]"
  using assms
  by (auto simp: Sequential_forward_def Linear_forward_def Linear_init_def GELU_def
        and_then_eq_Inr split: if_splits)

lemma LayerNorm_shape:
  assumes "LayerNorm_forward K l x = Inr y"
  shows "shape y = shape x"
  using assms by (auto simp: LayerNorm_forward_def split: if_splits)


lemma img_224:
  assumes "img div 4 = (56::nat)" "50176 = img * img"
  shows "img = 224"
proof -
  from assms(1) have "224 \<le> img \<and> img < 228" by arith
  then have "img = 224 \<or> img = 225 \<or> img = 226 \<or> img = 227" by arith
  with assms(2) show ?thesis by auto
qed

lemma forward_features_Inr:
  assumes init: "DecoderC_init K img ed nh qs dp qr sr = Inr m"
      and r: "forward_features K training m x x_1_8 x_1_4 = Inr masks"
  shows "img = 224 \<and> (\<exists>B C. shape x = [B, 196, C] \<and> 0 < B)"
proof -
  note f = DecoderC_init_fields[OF init]
  from r obtain B N C where u: "unpack3 x = Inr (B, N, C)"
    by (cases "unpack3 x") (auto simp: forward_features_def)
  then have x: "shape x = [B, N, C]"
    by (auto simp: unpack3_def split: list.splits)
  from r obtain n s m16 xt xg xd1 H1 W1 xd m8 gd xc1 H2 W2 xc m4 gc xb H3 W3 m1 where
        n: "LayerNorm_forward K (dec_norm m) x = Inr n"
    and s: "Sequential_forward K (dec_mlp m) n = Inr s"
    and m16: "mask_head K (dec_pre_1_16 m) s B (dec_img_size m div 16) = Inr m16"
    and xt: "transpose K 1 2 x = Inr xt"
    and xg: "reshape K [Some B, Some C, Some 14, Some 14] xt = Inr xg"
    and pd: "PatchEmbed_forward K (dec_patch_embed_d m) xg (Some x_1_8) = Inr (xd1, (H1, W1))"
    and xd: "run_blocks K training (dec_blocks_d m) xd1 H1 W1 (dec_relative_pos_d m) = Inr xd"
    and m8: "mask_head K (dec_pre_1_8 m) xd B (dec_img_size m div 8) = Inr m8"
    and gd: "to_grid K xd B H1 W1 = Inr gd"
    and pc: "PatchEmbed_forward K (dec_patch_embed_c m) gd (Some x_1_4) = Inr (xc1, (H2, W2))"
    and xc: "run_blocks K training (dec_blocks_c m) xc1 H2 W2 (dec_relative_pos_c m) = Inr xc"
    and m4: "mask_head K (dec_pre_1_4 m) xc B (dec_img_size m div 4) = Inr m4"
    and gc: "to_grid K xc B H2 W2 = Inr gc"
    and pb: "PatchEmbed_forward K (dec_patch_embed_b m) gc None = Inr (xb, (H3, W3))"
    and m1: "mask_head K (dec_pre_1_1 m) xb B (dec_img_size m div 1) = Inr m1"
    unfolding forward_features_def
    by (auto simp: u and_then_eq_Inr)
  have sn: "shape n = [B, N, C]" using LayerNorm_shape[OF n] x by simp
  have ss: "shape s = [B, N, ed ! 1]" using Sequential_shape[OF s[unfolded f(2)] sn] .
  from mask_head_Inr[OF m16[unfolded f(7) f(3)] ss]
  have e16: "B * N = B * ((img div 16) * (img div 16))" .
  from reshape4_Inr[OF xg] have sxg: "shape xg = [B, C, 14, 14]" by simp
  from PatchEmbed_forward_Inr(1,5)[OF f(6) sxg pd]
  have i16: "img div 16 = 14" and hw1: "H1 = 28" "W1 = 28" by auto
  from to_grid_Inr[OF gd] obtain C1 where B: "0 < B" and sgd: "shape gd = [B, C1, 28, 28]"
    by (auto simp: hw1)
  from PatchEmbed_forward_Inr(1,5)[OF f(5) sgd pc]
  have i8: "img div 8 = 28" and hw2: "H2 = 56" "W2 = 56" by auto
  from to_grid_Inr[OF gc] obtain C2 where sgc: "shape gc = [B, C2, 56, 56]"
    by (auto simp: hw2)
  from PatchEmbed_forward_Inr(1,4)[OF f(4) sgc pb]
  have i4: "img div 4 = 56" and sxb: "shape xb = [B, (img div 4 * 4) * (img div 4 * 4), ed ! 3]"
    by auto
  from mask_head_Inr[OF m1[unfolded f(10) f(3)] sxb]
  have "B * ((img div 4 * 4) * (img div 4 * 4)) = B * ((img div 1) * (img div 1))" .
  with B i4 have "50176 = img * img" by simp
  with i4 have img: "img = 224" by (rule img_224)
  from e16 B i16 have "N = 196" by simp
  with x B img show ?thesis by simp
qed


text \<open>
  C8, as stated, fails in its first part for an empty input: on \<open>x\<close> of shape
  \<open>(0, 5, 384)\<close> the mask head of the 1/16 scale returns and the reshape to
  \<open>(B, C, 14, 14)\<close> succeeds, although \<open>N = 5\<close>, because both sides have no elements.
\<close>

theorem reshape_empty_counterexample:
  "mask_head unit_kernel (Linear_init ''pre_1_16'' 128 1) (tensor_of [0, 5, 128]) 0 14
     = Inr (tensor_of [0, 1, 14, 14])
   \<and> transpose unit_kernel 1 2 (tensor_of [0, 5, 384]) = Inr (tensor_of [0, 384, 5])
   \<and> reshape unit_kernel [Some 0, Some 384, Some 14, Some 14] (tensor_of [0, 384, 5])
     = Inr (tensor_of [0, 384, 14, 14])
   \<and> (5::nat) \<noteq> 196"
  by (simp add: mask_head_def prim_defs mk_def tensor_of_def unit_kernel_def)

text \<open>
  C8, amended. \<open>forward_features\<close> hard-codes a \<open>14 \<times> 14\<close> grid: for every non-empty
  input \<open>x\<close> of shape \<open>(B, N, C)\<close> (\<open>B, C \<ge> 1\<close>) the reshape to \<open>(B, C, 14, 14)\<close>
  succeeds only when \<open>N = 196\<close>, whatever \<open>img_size\<close> is; the size assertion of
  \<open>patch_embed_d\<close> on the reshaped input fails unless \<open>img_size div 16 = 14\<close>; and for every
  constructed decoder and every input, \<open>forward\<close> can only succeed when \<open>img_size = 224\<close>
  and the coarse input has exactly 196 tokens (and then the batch is not empty).
\<close>

theorem forward_requires_224_and_196:
  assumes "DecoderC_init K img_size embed_dims num_heads qk_scale_given depths qk_ratio sr_ratios = Inr m"
  shows "(shape x = [B, N, C] \<and> 0 < B \<and> 0 < C \<and> transpose K 1 2 x = Inr xt
            \<and> reshape K [Some B, Some C, Some 14, Some 14] xt = Inr xg \<longrightarrow> N = 196)
       \<and> (shape g = [B', C', 14, 14] \<and> img_size div 16 \<noteq> 14
            \<longrightarrow> PatchEmbed_forward K (dec_patch_embed_d m) g enc_fea = Inl AssertionError)
       \<and> (DecoderC_forward K training m x x8th x4th = Inr outs
            \<longrightarrow> img_size = 224 \<and> (\<exists>B C. shape x = [B, 196, C] \<and> 0 < B))"
proof (intro conjI impI)
  assume a: "shape x = [B, N, C] \<and> 0 < B \<and> 0 < C \<and> transpose K 1 2 x = Inr xt
            \<and> reshape K [Some B, Some C, Some 14, Some 14] xt = Inr xg"
  then have "shape xt = [B, C, N]"
    by (auto simp: transpose_def norm_dim_def and_then_eq_Inr)
  with a reshape4_Inr[of K B C 14 14 xt xg] have "B * (C * N) = B * (C * 196)" by simp
  with a show "N = 196" by simp
next
  assume b: "shape g = [B', C', 14, 14] \<and> img_size div 16 \<noteq> 14"
  note f = DecoderC_init_fields[OF assms]
  from b have g: "shape g = [B', C', 14, 14]" by simp
  from b show "PatchEmbed_forward K (dec_patch_embed_d m) g enc_fea = Inl AssertionError"
    by (auto simp: PatchEmbed_forward_phases[OF g] PatchEmbed_init_Inr(1)[OF f(6)])
next
  assume c: "DecoderC_forward K training m x x8th x4th = Inr outs"
  then obtain masks where "forward_features K training m x x8th x4th = Inr masks"
    by (auto simp: DecoderC_forward_def and_then_eq_Inr)
  from forward_features_Inr[OF assms this]
  show "img_size = 224" "\<exists>B C. shape x = [B, 196, C] \<and> 0 < B" by auto
qed


theorem forward_requires_224_and_196_witness:
  "DecoderC_default unit_kernel = Inr (projr (DecoderC_default unit_kernel))
   \<and> (\<exists>outs. DecoderC_forward unit_kernel False (projr (DecoderC_default unit_kernel))
          (tensor_of [2, 196, 384]) (tensor_of [2, 784, 128]) (tensor_of [2, 3136, 64]) = Inr outs)
   \<and> transpose unit_kernel 1 2 (tensor_of [2, 196, 384]) = Inr (tensor_of [2, 384, 196])
   \<and> reshape unit_kernel [Some 2, Some 384, Some 14, Some 14] (tensor_of [2, 384, 196])
        = Inr (tensor_of [2, 384, 14, 14])
   \<and> DecoderC_init unit_kernel 256 [384, 128, 64, 16, 4] [1, 2, 4, 8] False [2, 3, 6, 3] 1 [8, 4, 2, 1]
        = Inr (projr (DecoderC_init unit_kernel 256 [384, 128, 64, 16, 4] [1, 2, 4, 8] False
                        [2, 3, 6, 3] 1 [8, 4, 2, 1]))
   \<and> PatchEmbed_forward unit_kernel
        (dec_patch_embed_d (projr (DecoderC_init unit_kernel 256 [384, 128, 64, 16, 4] [1, 2, 4, 8]
                        False [2, 3, 6, 3] 1 [8, 4, 2, 1])))
        (tensor_of [2, 384, 14, 14]) None = Inl AssertionError"
proof -
  from DecoderC_default_ok[of unit_kernel] obtain m where m: "DecoderC_default unit_kernel = Inr m"
    by blast
  have "\<exists>m16 m8 m4 m1. forward_features unit_kernel False m (tensor_of [2, 196, 384])
          (tensor_of [2, 784, 128]) (tensor_of [2, 3136, 64]) = Inr [m16, m8, m4, m1]
           \<and> shape m16 = [2, 1, 14, 14] \<and> shape m8 = [2, 1, 28, 28]
           \<and> shape m4 = [2, 1, 56, 56] \<and> shape m1 = [2, 1, 224, 224]"
    by (rule forward_features_default[OF m]) simp_all
  then obtain outs where outs: "DecoderC_forward unit_kernel False m (tensor_of [2, 196, 384])
          (tensor_of [2, 784, 128]) (tensor_of [2, 3136, 64]) = Inr outs"
    by (auto simp: DecoderC_forward_def Let_def)
  have t: "transpose unit_kernel 1 2 (tensor_of [2, 196, 384]) = Inr (tensor_of [2, 384, 196])"
    by (simp add: prim_defs mk_def tensor_of_def unit_kernel_def)
  have g: "reshape unit_kernel [Some 2, Some 384, Some 14, Some 14] (tensor_of [2, 384, 196])
        = Inr (tensor_of [2, 384, 14, 14])"
    by (simp add: prim_defs mk_def tensor_of_def unit_kernel_def)
  have "\<exists>m. DecoderC_init unit_kernel 256 [384, 128, 64, 16, 4] [1, 2, 4, 8] False [2, 3, 6, 3] 1
              [8, 4, 2, 1] = Inr m"
    by (rule DecoderC_init_ok) simp_all
  then obtain m' where m': "DecoderC_init unit_kernel 256 [384, 128, 64, 16, 4] [1, 2, 4, 8] False
              [2, 3, 6, 3] 1 [8, 4, 2, 1] = Inr m'" by blast
  from forward_requires_224_and_196[OF m[unfolded DecoderC_default_def],
         where x = "tensor_of [2, 196, 384]" and B = 2 and N = 196 and C = 384
           and xt = "tensor_of [2, 384, 196]" and xg = "tensor_of [2, 384, 14, 14]"
           and training = False and x8th = "tensor_of [2, 784, 128]"
           and x4th = "tensor_of [2, 3136, 64]" and outs = outs]
       forward_requires_224_and_196[OF m', where g = "tensor_of [2, 384, 14, 14]" and B' = 2
           and C' = 384 and enc_fea = None]
       m outs t g m'
  show ?thesis by simp
qed

end
